theory Spec2Isabelle
  imports Complex_Main "HOL-Library.AList"
begin

section \<open>JavaScript values used by the weather pipeline\<close>

text \<open>
  The numbers of the JSON payloads are modelled as reals: neither NaN nor an infinity
  comes with a payload, and the rounding in the arithmetic on them is left out.  Where the
  code converts text to a number the result is a binary64 value, modelled as such (section
  on Number values).  Strings are lists of
  8-bit characters, read as the code units U+0000 .. U+00FF; the character classes and the
  lower-casing below are those of JavaScript on that range.  Where two interfaces of the
  source share a field name, the record fields carry a prefix (\<open>c_\<close> for the current
  block, \<open>h_\<close> for an hourly entry, \<open>d_\<close> for a daily entry, and so on).
\<close>

definition Math_round :: "real \<Rightarrow> int" where
  \<comment> \<open>\<^verbatim>\<open>Math.round\<close>: the nearest integer, a tie going up.\<close>
  "Math_round x = \<lfloor>x + 1 / 2\<rfloor>"

definition js_rem :: "int \<Rightarrow> int \<Rightarrow> int" where
  \<comment> \<open>The operator \<^verbatim>\<open>%\<close> on integers: the remainder has the sign of the dividend.\<close>
  "js_rem a b = sgn a * (\<bar>a\<bar> mod \<bar>b\<bar>)"

definition js_index :: "'a list \<Rightarrow> int \<Rightarrow> 'a option" where
  \<comment> \<open>\<^verbatim>\<open>xs[i]\<close>: \<^verbatim>\<open>undefined\<close> (here \<open>None\<close>) outside the array.\<close>
  "js_index xs i = (if 0 \<le> i \<and> i < int (length xs) then Some (xs ! nat i) else None)"

section \<open>Wind direction (transformWeatherData, weatherApi.ts)\<close>

definition directions :: "string list" where
  "directions = [''N'', ''NNE'', ''NE'', ''ENE'', ''E'', ''ESE'', ''SE'', ''SSE'',
                 ''S'', ''SSW'', ''SW'', ''WSW'', ''W'', ''WNW'', ''NW'', ''NNW'']"

definition windIndex :: "real \<Rightarrow> int" where
  "windIndex degrees = js_rem (Math_round (degrees / 22.5)) 16"

definition getWindDirection :: "real \<Rightarrow> string option" where
  "getWindDirection degrees = js_index directions (windIndex degrees)"

section \<open>The internal weather model (types/weather.ts)\<close>

datatype WeatherCondition =
  Sunny | Cloudy | Rainy | Snowy | Windy | PartlyCloudy | Thunderstorm | Fog

text \<open>
  The value an \<open>icon\<close> field holds at run time.  The interfaces declare it a
  \<open>WeatherCondition\<close>; a property read on an object literal can also give a member the
  literal inherits from \<open>Object.prototype\<close> (named by its key), or \<open>undefined\<close>.
\<close>

datatype icon_value = Tag WeatherCondition | Inherited string | Undefined

record CurrentWeatherData =
  c_temperature :: real
  c_condition :: string
  c_description :: string
  c_icon :: icon_value
  c_feelsLike :: real
  c_humidity :: real
  c_windSpeed :: real
  c_windDirection :: "string option"
  c_pressure :: real
  c_visibility :: real
  c_uvIndex :: real
  c_sunrise :: string
  c_sunset :: string
  c_dewPoint :: real
  c_timestamp :: "real option"

record HourlyWeatherData =
  h_time :: string
  h_temperature :: real
  h_icon :: icon_value
  h_precipitation :: real
  h_humidity :: real
  h_pressure :: real
  h_windSpeed :: "real option"
  h_feelsLike :: "real option"

record DailyWeatherData =
  d_day :: string
  d_date :: "string option"
  d_high :: real
  d_low :: real
  d_icon :: icon_value
  d_precipitation :: real
  d_humidity :: "real option"
  d_windSpeed :: "real option"
  d_description :: "string option"

record LocationData =
  loc_name :: string
  loc_country :: "string option"
  loc_region :: "string option"
  loc_lat :: "real option"
  loc_lon :: "real option"
  loc_timezone :: "string option"

record WeatherData =
  current :: CurrentWeatherData
  hourly :: "HourlyWeatherData list"
  daily :: "DailyWeatherData list"
  location :: "LocationData option"
  lastUpdated :: "string option"

section \<open>The OpenWeather payloads (the fields the transformers read)\<close>

record weather_entry =
  w_main :: string
  w_description :: string
  w_icon :: string

record main_block =
  temp :: real
  feels_like :: real
  temp_min :: real
  temp_max :: real
  m_pressure :: real
  m_humidity :: real

record wind_block =
  speed :: real
  deg :: "real option"

record coord_block =
  coord_lat :: real
  coord_lon :: real

record sys_block =
  sys_country :: string
  sys_sunrise :: real
  sys_sunset :: real

record OpenWeatherApiResponse =
  ow_coord :: coord_block
  ow_weather :: "weather_entry list"
  ow_main :: main_block
  ow_visibility :: real
  ow_wind :: wind_block
  ow_dt :: real
  ow_sys :: sys_block
  ow_name :: string

record forecast_item =
  fi_dt :: real
  fi_main :: main_block
  fi_weather :: "weather_entry list"
  fi_wind :: wind_block
  fi_visibility :: real
  fi_pop :: real

record city_block =
  city_name :: string
  city_coord :: coord_block
  city_country :: string
  city_timezone :: real
  city_sunrise :: real
  city_sunset :: real

record ForecastApiResponse =
  fc_list :: "forecast_item list"
  fc_city :: city_block

section \<open>The platform: clock, locale and number formatting\<close>

text \<open>
  What the code asks of the JavaScript platform is a parameter of the model.  An instant is
  its epoch time in milliseconds.  \<open>toLocaleWeekday\<close> stands for
  \<^verbatim>\<open>toLocaleDateString(undefined, { weekday: 'short' })\<close> and \<open>toLocaleTimeString\<close> for
  \<^verbatim>\<open>toLocaleTimeString([], { hour: '2-digit', minute: '2-digit' })\<close>; \<open>toISOString\<close> is
  \<open>None\<close> where the platform throws a RangeError (an instant outside the range of Date).
\<close>

record env =
  now :: real
  getHours :: "real \<Rightarrow> int"
  toLocaleTimeString :: "real \<Rightarrow> string"
  toLocaleWeekday :: "real \<Rightarrow> string"
  toISOString :: "real \<Rightarrow> string option"
  numberToString :: "real \<Rightarrow> string"

datatype js_error = TypeError | RangeError | WeatherAPIError string "nat option"

section \<open>Icon mapping (transformWeatherData and transformForecastData, weatherApi.ts)\<close>

text \<open>Both transformers declare the same table literal.\<close>

definition iconMapping :: "(string \<times> WeatherCondition) list" where
  "iconMapping =
    [(''01d'', Sunny), (''01n'', Sunny),
     (''02d'', PartlyCloudy), (''02n'', PartlyCloudy),
     (''03d'', Cloudy), (''03n'', Cloudy),
     (''04d'', Cloudy), (''04n'', Cloudy),
     (''09d'', Rainy), (''09n'', Rainy),
     (''10d'', Rainy), (''10n'', Rainy),
     (''11d'', Thunderstorm), (''11n'', Thunderstorm),
     (''13d'', Snowy), (''13n'', Snowy),
     (''50d'', Fog), (''50n'', Fog)]"

definition objectPrototypeKeys :: "string list" where
  \<comment> \<open>The properties every object literal inherits from \<^verbatim>\<open>Object.prototype\<close>.\<close>
  "objectPrototypeKeys =
    [''constructor'', ''hasOwnProperty'', ''isPrototypeOf'', ''propertyIsEnumerable'',
     ''toLocaleString'', ''toString'', ''valueOf'', ''__proto__'',
     ''__defineGetter__'', ''__defineSetter__'', ''__lookupGetter__'', ''__lookupSetter__'']"

definition iconMapping_get :: "string \<Rightarrow> icon_value" where
  \<comment> \<open>The property read \<^verbatim>\<open>iconMapping[code]\<close>: an own entry, else an inherited member.\<close>
  "iconMapping_get code =
     (case map_of iconMapping code of
        Some t \<Rightarrow> Tag t
      | None \<Rightarrow> if code \<in> set objectPrototypeKeys then Inherited code else Undefined)"

definition iconOf :: "string \<Rightarrow> icon_value" where
  \<comment> \<open>\<^verbatim>\<open>iconMapping[code] || 'sunny'\<close>: only \<^verbatim>\<open>undefined\<close> is falsy among the values read.\<close>
  "iconOf code = (case iconMapping_get code of Undefined \<Rightarrow> Tag Sunny | v \<Rightarrow> v)"

section \<open>transformWeatherData (weatherApi.ts)\<close>

definition truthy_or :: "real \<Rightarrow> real \<Rightarrow> real" where
  \<comment> \<open>\<^verbatim>\<open>x || d\<close> on a number: zero is falsy.\<close>
  "truthy_or x d = (if x = 0 then d else x)"

definition visibilityOf :: "real \<Rightarrow> real" where
  \<comment> \<open>\<^verbatim>\<open>v ? v / 1000 : 10\<close>\<close>
  "visibilityOf v = (if v \<noteq> 0 then v / 1000 else 10)"

definition transformWeatherData :: "env \<Rightarrow> OpenWeatherApiResponse \<Rightarrow> js_error + WeatherData" where
  "transformWeatherData e apiData =
     (case ow_weather apiData of
        [] \<Rightarrow> Inl TypeError
      | w0 # _ \<Rightarrow>
          Inr \<lparr> current =
                  \<lparr> c_temperature = of_int (Math_round (temp (ow_main apiData))),
                    c_condition = w_main w0,
                    c_description = w_description w0,
                    c_icon = iconOf (w_icon w0),
                    c_feelsLike = of_int (Math_round (feels_like (ow_main apiData))),
                    c_humidity = m_humidity (ow_main apiData),
                    c_windSpeed = speed (ow_wind apiData),
                    c_windDirection =
                      getWindDirection
                        (case deg (ow_wind apiData) of None \<Rightarrow> 0 | Some d \<Rightarrow> truthy_or d 0),
                    c_pressure = m_pressure (ow_main apiData),
                    c_visibility = visibilityOf (ow_visibility apiData),
                    c_uvIndex = 0,
                    c_sunrise = toLocaleTimeString e (sys_sunrise (ow_sys apiData) * 1000),
                    c_sunset = toLocaleTimeString e (sys_sunset (ow_sys apiData) * 1000),
                    c_dewPoint = 0,
                    c_timestamp = Some (ow_dt apiData * 1000) \<rparr>,
                hourly = [],
                daily = [],
                location =
                  Some \<lparr> loc_name = ow_name apiData,
                         loc_country = Some (sys_country (ow_sys apiData)),
                         loc_region = None,
                         loc_lat = Some (coord_lat (ow_coord apiData)),
                         loc_lon = Some (coord_lon (ow_coord apiData)),
                         loc_timezone = None \<rparr>,
                lastUpdated = None \<rparr>)"

section \<open>transformForecastData (weatherApi.ts)\<close>

fun mapE :: "('a \<Rightarrow> 'e + 'b) \<Rightarrow> 'a list \<Rightarrow> 'e + 'b list" where
  "mapE f [] = Inr []"
| "mapE f (x # xs) =
     (case f x of
        Inl e \<Rightarrow> Inl e
      | Inr y \<Rightarrow> (case mapE f xs of Inl e \<Rightarrow> Inl e | Inr ys \<Rightarrow> Inr (y # ys)))"

definition hourlyOf :: "env \<Rightarrow> forecast_item \<Rightarrow> js_error + HourlyWeatherData" where
  "hourlyOf e item =
     (let date = fi_dt item * 1000 in
      case fi_weather item of
        [] \<Rightarrow> Inl TypeError
      | w0 # _ \<Rightarrow>
          Inr \<lparr> h_time = (if getHours e date = getHours e (now e) then ''Now''
                          else toLocaleTimeString e date),
                h_temperature = of_int (Math_round (temp (fi_main item))),
                h_icon = iconOf (w_icon w0),
                h_precipitation = of_int (Math_round (truthy_or (fi_pop item) 0 * 100)),
                h_humidity = m_humidity (fi_main item),
                h_pressure = m_pressure (fi_main item),
                h_windSpeed = Some (speed (fi_wind item)),
                h_feelsLike = Some (of_int (Math_round (feels_like (fi_main item)))) \<rparr>)"

text \<open>
  \<open>daysMap\<close> is an object keyed by the weekday label; its own properties are kept in
  insertion order, which is the order \<^verbatim>\<open>Object.values\<close> lists them in.  The labels come
  from the platform's date formatter, not from the payload: they are weekday names, never
  an array index or the name of an inherited property, so \<^verbatim>\<open>daysMap[day]\<close> is a lookup
  among the own properties.
\<close>

type_synonym days_map = "(string \<times> DailyWeatherData) list"

definition addDay :: "env \<Rightarrow> days_map \<Rightarrow> forecast_item \<Rightarrow> js_error + days_map" where
  "addDay e daysMap item =
     (let date = fi_dt item * 1000;
          day = toLocaleWeekday e date
      in case map_of daysMap day of
           None \<Rightarrow>
             (case fi_weather item of
                [] \<Rightarrow> Inl TypeError
              | w0 # _ \<Rightarrow>
                  (case toISOString e date of
                     None \<Rightarrow> Inl RangeError
                   | Some isoText \<Rightarrow>
                       Inr (AList.update day
                              \<lparr> d_day = day,
                                d_date = Some isoText,
                                d_high = temp_max (fi_main item),
                                d_low = temp_min (fi_main item),
                                d_icon = iconOf (w_icon w0),
                                d_precipitation =
                                  of_int (Math_round (truthy_or (fi_pop item) 0 * 100)),
                                d_humidity = Some (m_humidity (fi_main item)),
                                d_windSpeed = Some (speed (fi_wind item)),
                                d_description = Some (w_description w0) \<rparr>
                              daysMap)))
         | Some d \<Rightarrow>
             (let d1 = d \<lparr> d_high := max (d_high d) (temp_max (fi_main item)),
                           d_low := min (d_low d) (temp_min (fi_main item)) \<rparr>
              in if truthy_or (fi_pop item) 0 > truthy_or (d_precipitation d1) 0 then
                   (case fi_weather item of
                      [] \<Rightarrow> Inl TypeError
                    | w0 # _ \<Rightarrow>
                        Inr (AList.update day
                               (d1 \<lparr> d_icon := iconOf (w_icon w0),
                                     d_description := Some (w_description w0),
                                     d_precipitation :=
                                       of_int (Math_round (truthy_or (fi_pop item) 0 * 100)) \<rparr>)
                               daysMap))
                 else Inr (AList.update day d1 daysMap)))"

fun addDays :: "env \<Rightarrow> days_map \<Rightarrow> forecast_item list \<Rightarrow> js_error + days_map" where
  \<comment> \<open>\<^verbatim>\<open>apiData.list.forEach\<close>; an exception ends the loop.\<close>
  "addDays e daysMap [] = Inr daysMap"
| "addDays e daysMap (item # items) =
     (case addDay e daysMap item of
        Inl err \<Rightarrow> Inl err
      | Inr daysMap' \<Rightarrow> addDays e daysMap' items)"

definition dailyOf :: "days_map \<Rightarrow> DailyWeatherData list" where
  \<comment> \<open>\<^verbatim>\<open>Object.values(daysMap).slice(0, 7)\<close>\<close>
  "dailyOf daysMap = take 7 (map snd daysMap)"

definition transformForecastData :: "env \<Rightarrow> ForecastApiResponse \<Rightarrow> js_error + WeatherData" where
  "transformForecastData e apiData =
     (case mapE (hourlyOf e) (take 8 (fc_list apiData)) of
        Inl err \<Rightarrow> Inl err
      | Inr hourly' \<Rightarrow>
     (case addDays e [] (fc_list apiData) of
        Inl err \<Rightarrow> Inl err
      | Inr daysMap \<Rightarrow>
     (case fc_list apiData of
        [] \<Rightarrow> Inl TypeError
      | i0 # _ \<Rightarrow>
     (case fi_weather i0 of
        [] \<Rightarrow> Inl TypeError
      | w0 # _ \<Rightarrow>
     (case toISOString e (now e) of
        None \<Rightarrow> Inl RangeError
      | Some isoText \<Rightarrow>
          Inr \<lparr> current =
                  \<lparr> c_temperature = of_int (Math_round (temp (fi_main i0))),
                    c_condition = w_main w0,
                    c_description = w_description w0,
                    c_icon = iconOf (w_icon w0),
                    c_feelsLike = of_int (Math_round (feels_like (fi_main i0))),
                    c_humidity = m_humidity (fi_main i0),
                    c_windSpeed = speed (fi_wind i0),
                    c_windDirection = Some [],
                    c_pressure = m_pressure (fi_main i0),
                    c_visibility = visibilityOf (fi_visibility i0),
                    c_uvIndex = 0,
                    c_sunrise = toLocaleTimeString e (city_sunrise (fc_city apiData) * 1000),
                    c_sunset = toLocaleTimeString e (city_sunset (fc_city apiData) * 1000),
                    c_dewPoint = 0,
                    c_timestamp = Some (fi_dt i0 * 1000) \<rparr>,
                hourly = hourly',
                daily = dailyOf daysMap,
                location =
                  Some \<lparr> loc_name = city_name (fc_city apiData),
                         loc_country = Some (city_country (fc_city apiData)),
                         loc_region = None,
                         loc_lat = Some (coord_lat (city_coord (fc_city apiData))),
                         loc_lon = Some (coord_lon (city_coord (fc_city apiData))),
                         loc_timezone =
                           Some (numberToString e (city_timezone (fc_city apiData))) \<rparr>,
                lastUpdated = Some isoText \<rparr>)))))"

section \<open>Strings\<close>

definition isSpace :: "char \<Rightarrow> bool" where
  \<comment> \<open>White space and line terminators (the class \<^verbatim>\<open>\s\<close>, and what \<^verbatim>\<open>trim\<close> and
     \<^verbatim>\<open>Number\<close> strip) among the 8-bit characters: TAB, LF, VT, FF, CR, SP, NBSP.\<close>
  "isSpace c \<longleftrightarrow> (of_char c :: nat) \<in> {9, 10, 11, 12, 13, 32, 160}"

definition isDigit :: "char \<Rightarrow> bool" where
  \<comment> \<open>The class \<^verbatim>\<open>\d\<close>: 0 to 9.\<close>
  "isDigit c \<longleftrightarrow> 48 \<le> (of_char c :: nat) \<and> (of_char c :: nat) \<le> 57"

definition trim :: "string \<Rightarrow> string" where
  "trim s = rev (dropWhile isSpace (rev (dropWhile isSpace s)))"

definition toLowerChar :: "char \<Rightarrow> char" where
  \<comment> \<open>A to Z, and the capital letters of U+00C0 .. U+00DE (not the sign U+00D7).\<close>
  "toLowerChar c =
     (let n = (of_char c :: nat)
      in if (65 \<le> n \<and> n \<le> 90) \<or> (192 \<le> n \<and> n \<le> 214) \<or> (216 \<le> n \<and> n \<le> 222)
         then char_of (n + 32) else c)"

definition toLowerCase :: "string \<Rightarrow> string" where
  "toLowerCase s = map toLowerChar s"

fun str_includes :: "string \<Rightarrow> string \<Rightarrow> bool" where
  \<comment> \<open>\<^verbatim>\<open>s.includes(t)\<close>: \<open>t\<close> occurs in \<open>s\<close>.\<close>
  "str_includes [] t = (t = [])"
| "str_includes (c # s) t = (take (length t) (c # s) = t \<or> str_includes s t)"

fun split_on :: "char \<Rightarrow> string \<Rightarrow> string list" where
  \<comment> \<open>\<^verbatim>\<open>s.split(c)\<close> for a one-character separator.\<close>
  "split_on c [] = [[]]"
| "split_on c (x # xs) =
     (if x = c then [] # split_on c xs
      else (case split_on c xs of [] \<Rightarrow> [[x]] | p # ps \<Rightarrow> (x # p) # ps))"

section \<open>The coordinate pattern (parseLocation, useWeather.ts)\<close>

text \<open>
  The pattern uses no back-reference and no look-around, and it is anchored at both ends:
  \<^verbatim>\<open>test\<close> decides whether the whole string belongs to the regular language, here by
  derivatives.
\<close>

datatype rx = Zero | One | Lit char | AnyDigit | AnySpace | Alt rx rx | Seq rx rx | Star rx

definition Opt :: "rx \<Rightarrow> rx" where
  "Opt r = Alt r One"

definition Plus :: "rx \<Rightarrow> rx" where
  "Plus r = Seq r (Star r)"

fun nullable :: "rx \<Rightarrow> bool" where
  "nullable Zero = False"
| "nullable One = True"
| "nullable (Lit c) = False"
| "nullable AnyDigit = False"
| "nullable AnySpace = False"
| "nullable (Alt r s) = (nullable r \<or> nullable s)"
| "nullable (Seq r s) = (nullable r \<and> nullable s)"
| "nullable (Star r) = True"

fun deriv :: "char \<Rightarrow> rx \<Rightarrow> rx" where
  "deriv x Zero = Zero"
| "deriv x One = Zero"
| "deriv x (Lit c) = (if x = c then One else Zero)"
| "deriv x AnyDigit = (if isDigit x then One else Zero)"
| "deriv x AnySpace = (if isSpace x then One else Zero)"
| "deriv x (Alt r s) = Alt (deriv x r) (deriv x s)"
| "deriv x (Seq r s) =
     (if nullable r then Alt (Seq (deriv x r) s) (deriv x s) else Seq (deriv x r) s)"
| "deriv x (Star r) = Seq (deriv x r) (Star r)"

fun regex_test :: "rx \<Rightarrow> string \<Rightarrow> bool" where
  "regex_test r [] = nullable r"
| "regex_test r (x # xs) = regex_test (deriv x r) xs"

definition signedDecimal :: rx where
  \<comment> \<open>\<^verbatim>\<open>-?\d+(\.\d+)?\<close>\<close>
  "signedDecimal =
     Seq (Opt (Lit CHR ''-''))
         (Seq (Plus AnyDigit) (Opt (Seq (Lit CHR ''.'') (Plus AnyDigit))))"

definition coordPattern :: rx where
  \<comment> \<open>\<^verbatim>\<open>^-?\d+(\.\d+)?\s*,\s*-?\d+(\.\d+)?$\<close>\<close>
  "coordPattern =
     Seq signedDecimal
         (Seq (Star AnySpace) (Seq (Lit CHR '','') (Seq (Star AnySpace) signedDecimal)))"

inductive_set star :: "string set \<Rightarrow> string set" for A :: "string set" where
  star_nil: "[] \<in> star A"
| star_app: "u \<in> A \<Longrightarrow> v \<in> star A \<Longrightarrow> u @ v \<in> star A"

fun lang :: "rx \<Rightarrow> string set" where
  \<comment> \<open>The strings a pattern stands for.\<close>
  "lang Zero = {}"
| "lang One = {[]}"
| "lang (Lit c) = {[c]}"
| "lang AnyDigit = {[x] | x. isDigit x}"
| "lang AnySpace = {[x] | x. isSpace x}"
| "lang (Alt r s) = lang r \<union> lang s"
| "lang (Seq r s) = {u @ v | u v. u \<in> lang r \<and> v \<in> lang s}"
| "lang (Star r) = star (lang r)"

section \<open>Number values and the conversion of a string\<close>

text \<open>
  A value of the type Number where the code converts text: a finite number, an infinity or
  NaN.  The two zeros are not told apart (both are falsy and both print as 0).
\<close>

datatype jsnum = Num real | PosInfinity | NegInfinity | NaN

definition round_even :: "real \<Rightarrow> int" where
  \<comment> \<open>The nearest integer, a tie going to the even one.\<close>
  "round_even x =
     (let f = \<lfloor>x\<rfloor>; d = x - of_int f
      in if d < 1 / 2 then f else if d > 1 / 2 then f + 1 else if even f then f else f + 1)"

definition binary64_abs :: "real \<Rightarrow> real" where
  \<comment> \<open>For a positive number: the nearest multiple of the binary64 spacing at its
     magnitude, with a significand of 53 bits and the least exponent - 1022 (below it the
     spacing stays 2 to the - 1074, so the smallest numbers go to 0).\<close>
  "binary64_abs a =
     (let e = max \<lfloor>log 2 a\<rfloor> (- 1022); q = 2 powi (e - 52)
      in of_int (round_even (a / q)) * q)"

definition binary64 :: "real \<Rightarrow> jsnum" where
  \<comment> \<open>The Number value for a real number: rounded to the nearest binary64, and an infinity
     once the rounded magnitude reaches 2 to the 1024.\<close>
  "binary64 x =
     (if x = 0 then Num 0
      else (let v = binary64_abs \<bar>x\<bar>
            in if v \<ge> 2 ^ 1024 then (if x < 0 then NegInfinity else PosInfinity)
               else Num (if x < 0 then - v else v)))"

text \<open>
  \<^verbatim>\<open>Number(s)\<close>: white space is stripped, the empty string is 0, and a numeral (an optional
  sign, digits and an optional fraction) gives the Number value for the number it denotes,
  which is computed exactly first and rounded once.  (The language lets an engine shorten
  a numeral of more than 20 significant digits before rounding; the engines round the full
  numeral.)  Every other text gives NaN here; that includes the forms the model leaves out
  (an exponent, a radix prefix, the word Infinity), none of which passes the coordinate
  pattern.
\<close>

definition digitVal :: "char \<Rightarrow> nat" where
  "digitVal c = of_char c - 48"

definition decimal :: "string \<Rightarrow> nat" where
  \<comment> \<open>The number a string of digits denotes.\<close>
  "decimal ds = foldl (\<lambda>n c. 10 * n + digitVal c) 0 ds"

definition unsignedMV :: "string \<Rightarrow> real option" where
  \<comment> \<open>The mathematical value of an unsigned numeral, before any rounding; \<open>None\<close> when
     the text is no such numeral.\<close>
  "unsignedMV u =
     (let ip = takeWhile isDigit u; rest = dropWhile isDigit u
      in case rest of
           [] \<Rightarrow> if ip = [] then None else Some (real (decimal ip))
         | x # fp \<Rightarrow>
             if x = CHR ''.'' \<and> list_all isDigit fp \<and> (ip \<noteq> [] \<or> fp \<noteq> [])
             then Some (real (decimal ip) + real (decimal fp) / 10 ^ length fp)
             else None)"

definition roundMV :: "real option \<Rightarrow> jsnum" where
  "roundMV m = (case m of None \<Rightarrow> NaN | Some v \<Rightarrow> binary64 v)"

definition Number :: "string \<Rightarrow> jsnum" where
  "Number s =
     (let t = trim s
      in case t of
           [] \<Rightarrow> Num 0
         | x # u \<Rightarrow>
             if x = CHR ''-'' then roundMV (map_option uminus (unsignedMV u))
             else if x = CHR ''+'' then roundMV (unsignedMV u)
             else roundMV (unsignedMV t))"

definition truthy :: "jsnum \<Rightarrow> bool" where
  \<comment> \<open>A number in a condition: zero and NaN are falsy.\<close>
  "truthy n = (case n of Num x \<Rightarrow> x \<noteq> 0 | NaN \<Rightarrow> False | _ \<Rightarrow> True)"

section \<open>The HTTP client (APIClient, weatherApi.ts)\<close>

datatype param = PStr string | PNum real

record request =
  endpoint :: string
  params :: "(string \<times> param) list"

text \<open>
  What \<^verbatim>\<open>fetch\<close> and the parsing of the body give for a request: a failure (a network
  error, a status outside 2xx or a body that is no JSON, with its message and status code),
  or the payload.  A world answers every request of the three endpoints; the payloads have
  the shape the code casts them to.
\<close>

datatype 'a response = Failure string "nat option" | Success 'a

record geo_entry =
  g_name :: string
  g_country :: string
  g_state :: "string option"
  g_lat :: real
  g_lon :: real

record world =
  respondGeo :: "request \<Rightarrow> geo_entry list response"
  respondWeather :: "request \<Rightarrow> OpenWeatherApiResponse response"
  respondForecast :: "request \<Rightarrow> ForecastApiResponse response"

text \<open>
  The modules after loading: the key read from the build environment (empty when it is not
  set) and the constant \<open>mockWeatherData\<close>, whose initialiser ran when mockData.ts was loaded.
\<close>

record app =
  API_KEY :: string
  mock :: WeatherData

definition BASE_URL :: string where
  "BASE_URL = ''https://api.openweathermap.org/data/2.5''"

definition GEO_URL :: string where
  "GEO_URL = ''https://api.openweathermap.org/geo/1.0''"

definition isAPIConfigured :: "app \<Rightarrow> bool" where
  \<comment> \<open>\<^verbatim>\<open>Boolean(API_CONFIG.API_KEY)\<close>\<close>
  "isAPIConfigured a \<longleftrightarrow> API_KEY a \<noteq> []"

definition apiClient_request :: "(request \<Rightarrow> 'a response) \<Rightarrow> request \<Rightarrow> js_error + 'a" where
  "apiClient_request respond req =
     (case respond req of
        Failure msg status \<Rightarrow> Inl (WeatherAPIError msg status)
      | Success payload \<Rightarrow> Inr payload)"

definition apiClient_url :: "app \<Rightarrow> string \<Rightarrow> (string \<times> param) list \<Rightarrow> request" where
  \<comment> \<open>The URL that \<open>get\<close> builds: the endpoint, its parameters and, when a key is
     configured, the key as \<open>appid\<close>.\<close>
  "apiClient_url a url ps =
     \<lparr> endpoint = url,
       params = (if API_KEY a \<noteq> [] then AList.update ''appid'' (PStr (API_KEY a)) ps else ps) \<rparr>"

definition apiClient_get ::
  "app \<Rightarrow> (request \<Rightarrow> 'a response) \<Rightarrow> string \<Rightarrow> (string \<times> param) list
     \<Rightarrow> (js_error + 'a) \<times> request list" where
  \<comment> \<open>The result, and the request sent.\<close>
  "apiClient_get a respond url ps =
     (let req = apiClient_url a url ps in (apiClient_request respond req, [req]))"

section \<open>The mock data (mockData.ts and weatherApi.ts)\<close>

function show_nat :: "nat \<Rightarrow> string" where
  \<comment> \<open>The decimal digits of a natural number, as a template literal prints it.\<close>
  "show_nat n = (if n < 10 then [char_of (48 + n)] else show_nat (n div 10) @ [char_of (48 + n mod 10)])"
  by pat_completeness auto
termination
  by (relation "measure id") auto

definition weatherPatterns :: "WeatherCondition list" where
  "weatherPatterns =
     [Sunny, Sunny, Cloudy, Cloudy, Rainy, PartlyCloudy,
      Sunny, Cloudy, PartlyCloudy, Rainy, Sunny, Cloudy]"

definition baseTemp :: real where
  "baseTemp = 68"

text \<open>
  One round of the loop of \<open>generate24HourForecast\<close>.  \<open>hourAt i\<close> is the local hour that
  \<open>forecastTime\<close> shows in round \<open>i\<close> (after \<^verbatim>\<open>setHours(currentHour + i)\<close>); the calls of
  \<^verbatim>\<open>Math.random()\<close> are the elements of \<open>rnd\<close>, taken in order from index \<open>k\<close> on.  The
  round gives its entry and the index of the next random number.
\<close>

definition hourEntry ::
  "(nat \<Rightarrow> nat) \<Rightarrow> (nat \<Rightarrow> real) \<Rightarrow> nat \<Rightarrow> nat \<Rightarrow> HourlyWeatherData \<times> nat" where
  "hourEntry hourAt rnd i k =
     (let timeString =
            (if i = 0 then ''Now''
             else (let hour = hourAt i;
                       isPM = (hour \<ge> 12);
                       displayHour = (if hour = 0 then 12 else if hour > 12 then hour - 12 else hour)
                   in show_nat displayHour @ '' '' @ (if isPM then ''PM'' else ''AM'')));
          hourInDay = hourAt i;
          (tempVariation, k1) =
            (if hourInDay \<ge> 6 \<and> hourInDay \<le> 18
             then (sin (real (hourInDay - 6) * pi / 12) * 8, k)
             else (- 5 + rnd k * 3, k + 1));
          temperature = Math_round (baseTemp + tempVariation + (rnd k1 - 0.5) * 4);
          weatherIndex = js_rem (int i + \<lfloor>rnd (k1 + 1) * 3\<rfloor>) (int (length weatherPatterns));
          icon = js_index weatherPatterns weatherIndex;
          k3 = k1 + 2;
          (precipitation, k4) =
            (case icon of
               Some Rainy \<Rightarrow> (60 + rnd k3 * 30, k3 + 1)
             | Some Cloudy \<Rightarrow> (rnd k3 * 20, k3 + 1)
             | Some PartlyCloudy \<Rightarrow> (rnd k3 * 10, k3 + 1)
             | _ \<Rightarrow> (0, k3));
          humidity = Math_round (45 + rnd k4 * 30 + (precipitation / 100) * 20);
          pressure = Math_round (1010 + rnd (k4 + 1) * 15);
          windSpeed = Math_round (5 + rnd (k4 + 2) * 10)
      in (\<lparr> h_time = timeString,
            h_temperature = of_int temperature,
            h_icon = (case icon of None \<Rightarrow> Undefined | Some t \<Rightarrow> Tag t),
            h_precipitation = of_int (Math_round precipitation),
            h_humidity = of_int humidity,
            h_pressure = of_int pressure,
            h_windSpeed = Some (of_int windSpeed),
            h_feelsLike = None \<rparr>,
          k4 + 3))"

function forecastLoop ::
  "(nat \<Rightarrow> nat) \<Rightarrow> (nat \<Rightarrow> real) \<Rightarrow> nat \<Rightarrow> nat \<Rightarrow> HourlyWeatherData list" where
  \<comment> \<open>\<^verbatim>\<open>for (let i = ...; i < 24; i++) forecast.push(...)\<close>: the entries pushed from round \<open>i\<close> on.\<close>
  "forecastLoop hourAt rnd i k =
     (if i < 24
      then (case hourEntry hourAt rnd i k of (entry, k') \<Rightarrow> entry # forecastLoop hourAt rnd (i + 1) k')
      else [])"
  by pat_completeness auto
termination
  by (relation "measure (\<lambda>(hourAt, rnd, i, k). 24 - i)") auto

declare forecastLoop.simps [simp del]

definition generate24HourForecast :: "(nat \<Rightarrow> nat) \<Rightarrow> (nat \<Rightarrow> real) \<Rightarrow> HourlyWeatherData list" where
  "generate24HourForecast hourAt rnd = forecastLoop hourAt rnd 0 0"

definition mockDay :: "string \<Rightarrow> real \<Rightarrow> real \<Rightarrow> WeatherCondition \<Rightarrow> real \<Rightarrow> DailyWeatherData" where
  \<comment> \<open>An entry of the literal \<open>daily\<close> array: the optional fields are absent.\<close>
  "mockDay dayName hi lo cond precip =
     \<lparr> d_day = dayName, d_date = None, d_high = hi, d_low = lo, d_icon = Tag cond,
       d_precipitation = precip, d_humidity = None, d_windSpeed = None, d_description = None \<rparr>"

definition mockWeatherData :: "(nat \<Rightarrow> nat) \<Rightarrow> (nat \<Rightarrow> real) \<Rightarrow> WeatherData" where
  \<comment> \<open>The initialiser of the constant, run with the clock and the random numbers of the
     moment the module is loaded.\<close>
  "mockWeatherData hourAt rnd =
     \<lparr> current =
         \<lparr> c_temperature = 68,
           c_condition = ''partly cloudy'',
           c_description = ''partly cloudy with a chance of sunshine'',
           c_icon = Tag PartlyCloudy,
           c_feelsLike = 72,
           c_humidity = 65,
           c_windSpeed = 8,
           c_windDirection = Some ''NW'',
           c_pressure = 1013,
           c_visibility = 10,
           c_uvIndex = 5,
           c_sunrise = ''6:42 AM'',
           c_sunset = ''7:18 PM'',
           c_dewPoint = 58,
           c_timestamp = None \<rparr>,
       hourly = generate24HourForecast hourAt rnd,
       daily =
         [mockDay ''Today'' 78 55 Rainy 60,
          mockDay ''Tue'' 82 58 Sunny 0,
          mockDay ''Wed'' 79 56 Cloudy 20,
          mockDay ''Thu'' 75 52 Rainy 80,
          mockDay ''Fri'' 71 48 Rainy 90,
          mockDay ''Sat'' 73 50 Cloudy 30,
          mockDay ''Sun'' 77 54 Sunny 10],
       location = None,
       lastUpdated = None \<rparr>"

definition load :: "string \<Rightarrow> (nat \<Rightarrow> nat) \<Rightarrow> (nat \<Rightarrow> real) \<Rightarrow> app" where
  \<comment> \<open>Loading the modules, once: the key of the build, the clock and the random numbers
     of that moment.\<close>
  "load key hourAt rnd = \<lparr> API_KEY = key, mock = mockWeatherData hourAt rnd \<rparr>"

definition getMockWeatherData :: "app \<Rightarrow> WeatherData" where
  "getMockWeatherData a = mock a"

record LocationSuggestion =
  ls_id :: string
  ls_name :: string
  ls_country :: string
  ls_state :: "string option"
  ls_lat :: real
  ls_lon :: real

definition mockLocations :: "LocationSuggestion list" where
  "mockLocations =
     [\<lparr> ls_id = ''1'', ls_name = ''New York'', ls_country = ''US'', ls_state = Some ''NY'',
        ls_lat = 40.7128, ls_lon = - 74.0060 \<rparr>,
      \<lparr> ls_id = ''2'', ls_name = ''London'', ls_country = ''GB'', ls_state = None,
        ls_lat = 51.5074, ls_lon = - 0.1278 \<rparr>,
      \<lparr> ls_id = ''3'', ls_name = ''Tokyo'', ls_country = ''JP'', ls_state = None,
        ls_lat = 35.6762, ls_lon = 139.6503 \<rparr>,
      \<lparr> ls_id = ''4'', ls_name = ''Paris'', ls_country = ''FR'', ls_state = None,
        ls_lat = 48.8566, ls_lon = 2.3522 \<rparr>,
      \<lparr> ls_id = ''5'', ls_name = ''Sydney'', ls_country = ''AU'', ls_state = None,
        ls_lat = - 33.8688, ls_lon = 151.2093 \<rparr>]"

definition getMockLocationSuggestions :: "string \<Rightarrow> LocationSuggestion list" where
  "getMockLocationSuggestions q =
     filter (\<lambda>l. str_includes (toLowerCase (ls_name l)) (toLowerCase q)) mockLocations"

section \<open>Location and weather services (weatherApi.ts)\<close>

text \<open>Every service returns its result together with the requests it sent, in order.\<close>

definition toSuggestion :: "env \<Rightarrow> geo_entry \<Rightarrow> nat \<Rightarrow> LocationSuggestion" where
  "toSuggestion e entry index =
     \<lparr> ls_id = numberToString e (g_lat entry) @ ''-'' @ numberToString e (g_lon entry)
                @ ''-'' @ numberToString e (real index),
       ls_name = g_name entry,
       ls_country = g_country entry,
       ls_state = g_state entry,
       ls_lat = g_lat entry,
       ls_lon = g_lon entry \<rparr>"

definition searchLocations ::
  "app \<Rightarrow> env \<Rightarrow> world \<Rightarrow> string \<Rightarrow> real \<Rightarrow> LocationSuggestion list \<times> request list" where
  "searchLocations a e w q limit =
     (if trim q = [] then ([], [])
      else (case apiClient_get a (respondGeo w) (GEO_URL @ ''/direct'')
                   [(''q'', PStr q), (''limit'', PNum limit)] of
              (Inr results, reqs) \<Rightarrow>
                (map2 (toSuggestion e) results [0 ..< length results], reqs)
            | (Inl err, reqs) \<Rightarrow> (getMockLocationSuggestions q, reqs)))"

definition numParam :: "jsnum \<Rightarrow> param" where
  \<comment> \<open>A number as the URL carries it (\<^verbatim>\<open>String(value)\<close>).\<close>
  "numParam n =
     (case n of
        Num x \<Rightarrow> PNum x
      | PosInfinity \<Rightarrow> PStr ''Infinity''
      | NegInfinity \<Rightarrow> PStr ''-Infinity''
      | NaN \<Rightarrow> PStr ''NaN'')"

definition coordParams :: "jsnum \<Rightarrow> jsnum \<Rightarrow> (string \<times> param) list" where
  \<comment> \<open>The parameter object that both weather services pass to \<open>get\<close>.\<close>
  "coordParams la lo =
     [(''lat'', numParam la), (''lon'', numParam lo),
      (''units'', PStr ''metric''), (''lang'', PStr ''en'')]"

definition getCurrentWeather ::
  "app \<Rightarrow> env \<Rightarrow> world \<Rightarrow> jsnum \<Rightarrow> jsnum \<Rightarrow> WeatherData \<times> request list" where
  "getCurrentWeather a e w la lo =
     (case apiClient_get a (respondWeather w) (BASE_URL @ ''/weather'') (coordParams la lo) of
        (Inr data, reqs) \<Rightarrow>
          (case transformWeatherData e data of
             Inr wd \<Rightarrow> (wd, reqs)
           | Inl err \<Rightarrow> (getMockWeatherData a, reqs))
      | (Inl err, reqs) \<Rightarrow> (getMockWeatherData a, reqs))"

definition getForecast ::
  "app \<Rightarrow> env \<Rightarrow> world \<Rightarrow> jsnum \<Rightarrow> jsnum \<Rightarrow> WeatherData \<times> request list" where
  "getForecast a e w la lo =
     (case apiClient_get a (respondForecast w) (BASE_URL @ ''/forecast'') (coordParams la lo) of
        (Inr data, reqs) \<Rightarrow>
          (case transformForecastData e data of
             Inr wd \<Rightarrow> (wd, reqs)
           | Inl err \<Rightarrow> (getMockWeatherData a, reqs))
      | (Inl err, reqs) \<Rightarrow> (getMockWeatherData a, reqs))"

text \<open>
  What the \<^verbatim>\<open>try\<close> block of a weather service yields: the transformed payload, or
  \<open>None\<close> when the block throws, that is when the request fails or the transformer throws
  on the payload.  The \<^verbatim>\<open>catch\<close> block then answers with the mock dataset.
\<close>

definition currentStep :: "app \<Rightarrow> env \<Rightarrow> world \<Rightarrow> jsnum \<Rightarrow> jsnum \<Rightarrow> WeatherData option" where
  "currentStep a e w la lo =
     (case respondWeather w (apiClient_url a (BASE_URL @ ''/weather'') (coordParams la lo)) of
        Failure msg st \<Rightarrow> None
      | Success p \<Rightarrow> (case transformWeatherData e p of Inl err \<Rightarrow> None | Inr wd \<Rightarrow> Some wd))"

definition forecastStep :: "app \<Rightarrow> env \<Rightarrow> world \<Rightarrow> jsnum \<Rightarrow> jsnum \<Rightarrow> WeatherData option" where
  "forecastStep a e w la lo =
     (case respondForecast w (apiClient_url a (BASE_URL @ ''/forecast'') (coordParams la lo)) of
        Failure msg st \<Rightarrow> None
      | Success p \<Rightarrow> (case transformForecastData e p of Inl err \<Rightarrow> None | Inr wd \<Rightarrow> Some wd))"

section \<open>The hook useWeatherData (useWeather.ts)\<close>

text \<open>The fields of \<open>coords\<close> are \<open>None\<close> where the array element is missing (\<^verbatim>\<open>undefined\<close>).\<close>

record coords =
  lat :: "jsnum option"
  lon :: "jsnum option"

definition parseLocation ::
  "app \<Rightarrow> env \<Rightarrow> world \<Rightarrow> string option \<Rightarrow> coords option \<times> request list" where
  "parseLocation a e w loc =
     (case loc of
        None \<Rightarrow> (None, [])
      | Some s \<Rightarrow>
          if s = [] then (None, [])
          else if regex_test coordPattern s then
            (let nums = map Number (split_on CHR '','' s)
             in (Some \<lparr> lat = js_index nums 0, lon = js_index nums 1 \<rparr>, []))
          else (case searchLocations a e w s 1 of
                  (r # _, reqs) \<Rightarrow>
                    (Some \<lparr> lat = Some (Num (ls_lat r)), lon = Some (Num (ls_lon r)) \<rparr>, reqs)
                | ([], reqs) \<Rightarrow> (None, reqs)))"

definition usable :: "app \<Rightarrow> coords option \<Rightarrow> (jsnum \<times> jsnum) option" where
  \<comment> \<open>\<^verbatim>\<open>isAPIConfigured() && coords && coords.lat && coords.lon\<close>: the pair to fetch for.
     Zero is falsy, as are NaN and \<^verbatim>\<open>undefined\<close>; an infinity is truthy.\<close>
  "usable a c =
     (if isAPIConfigured a then
        (case c of
           None \<Rightarrow> None
         | Some p \<Rightarrow>
             (case (lat p, lon p) of
                (Some la, Some lo) \<Rightarrow> if truthy la \<and> truthy lo then Some (la, lo) else None
              | _ \<Rightarrow> None))
      else None)"

text \<open>
  \<open>fetchWeatherData\<close>: the value handed to \<open>setWeatherData\<close> and the requests sent.  Each
  service called in the \<^verbatim>\<open>try\<close> block catches its own errors, so the block completes and
  \<open>setWeatherData\<close> is reached on every path.  \<^verbatim>\<open>Promise.all\<close> starts the current-weather
  request before the forecast request.
\<close>

definition resolveCoords ::
  "app \<Rightarrow> env \<Rightarrow> world \<Rightarrow> string option \<Rightarrow> coords option \<times> request list" where
  \<comment> \<open>\<^verbatim>\<open>let coords = null; if (location) coords = await parseLocation(location)\<close>\<close>
  "resolveCoords a e w loc =
     (case loc of
        None \<Rightarrow> (None, [])
      | Some s \<Rightarrow> if s \<noteq> [] then parseLocation a e w loc else (None, []))"

definition fetchWeatherData ::
  "app \<Rightarrow> env \<Rightarrow> world \<Rightarrow> string option \<Rightarrow> WeatherData \<times> request list" where
  "fetchWeatherData a e w loc =
     (let (c, reqs0) = resolveCoords a e w loc
      in case usable a c of
           Some (la, lo) \<Rightarrow>
             (let (cur, reqs1) = getCurrentWeather a e w la lo;
                  (fc, reqs2) = getForecast a e w la lo
              in (cur \<lparr> hourly := hourly fc, daily := daily fc \<rparr>, reqs0 @ reqs1 @ reqs2))
         | None \<Rightarrow> (mock a, reqs0))"

section \<open>Buckets of the daily aggregation\<close>

definition dayLabel :: "env \<Rightarrow> forecast_item \<Rightarrow> string" where
  \<comment> \<open>The key \<open>day\<close> that \<open>addDay\<close> computes for an entry.\<close>
  "dayLabel e item = toLocaleWeekday e (fi_dt item * 1000)"

definition bucket :: "env \<Rightarrow> forecast_item list \<Rightarrow> string \<Rightarrow> forecast_item set" where
  \<comment> \<open>The entries of the forecast list that share the weekday label \<open>k\<close>.\<close>
  "bucket e items k = {i \<in> set items. dayLabel e i = k}"

definition days_inv :: "env \<Rightarrow> forecast_item list \<Rightarrow> days_map \<Rightarrow> bool" where
  \<comment> \<open>The loop invariant of \<open>addDays\<close> after the entries \<open>seen\<close>.\<close>
  "days_inv e seen m \<longleftrightarrow>
     distinct (map fst m) \<and>
     dom (map_of m) = dayLabel e ` set seen \<and>
     (\<forall>k d. map_of m k = Some d \<longrightarrow>
        d_day d = k \<and>
        d_high d = Max ((temp_max \<circ> fi_main) ` bucket e seen k) \<and>
        d_low d = Min ((temp_min \<circ> fi_main) ` bucket e seen k))"

section \<open>Sample platform and payloads\<close>

text \<open>
  A platform to run the model on: the clock and the weekday are those of UTC (1 January
  1970 was a Thursday); the formatted strings are abbreviated.
\<close>

definition weekdayNames :: "string list" where
  "weekdayNames = [''Thu'', ''Fri'', ''Sat'', ''Sun'', ''Mon'', ''Tue'', ''Wed'']"

definition sample_env :: env where
  "sample_env =
     \<lparr> now = 0,
       getHours = (\<lambda>t. \<lfloor>t / 3600000\<rfloor> mod 24),
       toLocaleTimeString = (\<lambda>t. if \<lfloor>t / 3600000\<rfloor> mod 24 < 12 then ''AM'' else ''PM''),
       toLocaleWeekday = (\<lambda>t. weekdayNames ! nat (\<lfloor>t / 86400000\<rfloor> mod 7)),
       toISOString = (\<lambda>t. Some ''1970''),
       numberToString = (\<lambda>x. ''0'') \<rparr>"

definition sample_main :: "real \<Rightarrow> real \<Rightarrow> real \<Rightarrow> main_block" where
  "sample_main t lo hi =
     \<lparr> temp = t, feels_like = t - 1, temp_min = lo, temp_max = hi,
       m_pressure = 1015, m_humidity = 60 \<rparr>"

definition sample_item ::
  "real \<Rightarrow> string \<Rightarrow> string \<Rightarrow> real \<Rightarrow> real \<Rightarrow> real \<Rightarrow> forecast_item" where
  "sample_item dt code descr p lo hi =
     \<lparr> fi_dt = dt,
       fi_main = sample_main ((lo + hi) / 2) lo hi,
       fi_weather = [\<lparr> w_main = ''Weather'', w_description = descr, w_icon = code \<rparr>],
       fi_wind = \<lparr> speed = 3, deg = Some 90 \<rparr>,
       fi_visibility = 10000,
       fi_pop = p \<rparr>"

definition sample_city :: city_block where
  "sample_city =
     \<lparr> city_name = ''Greenwich'', city_coord = \<lparr> coord_lat = 51.5, coord_lon = 0.25 \<rparr>,
       city_country = ''GB'', city_timezone = 0, city_sunrise = 21600, city_sunset = 64800 \<rparr>"

definition rain_later :: ForecastApiResponse where
  \<comment> \<open>Two entries of one Thursday: clear at 03:00 (pop 0.25), rain at 06:00 (pop 0.75).\<close>
  "rain_later =
     \<lparr> fc_list = [sample_item 10800 ''01d'' ''clear sky'' 0.25 10 15,
                  sample_item 21600 ''10d'' ''light rain'' 0.75 12 18],
       fc_city = sample_city \<rparr>"

definition two_days :: ForecastApiResponse where
  \<comment> \<open>Three entries of a Thursday, the warmest in the middle, and one of the Friday.\<close>
  "two_days =
     \<lparr> fc_list = [sample_item 10800 ''01d'' ''clear sky'' 0 10 15,
                  sample_item 43200 ''02d'' ''few clouds'' 0 14 21,
                  sample_item 75600 ''01n'' ''clear sky'' 0 8 13,
                  sample_item 97200 ''10d'' ''light rain'' 0.5 9 12],
       fc_city = sample_city \<rparr>"

definition sample_weather :: "string \<Rightarrow> OpenWeatherApiResponse" where
  \<comment> \<open>A current-weather payload whose icon code is \<open>code\<close>.\<close>
  "sample_weather code =
     \<lparr> ow_coord = \<lparr> coord_lat = 51.5, coord_lon = 0.25 \<rparr>,
       ow_weather = [\<lparr> w_main = ''Weather'', w_description = ''as reported'', w_icon = code \<rparr>],
       ow_main = sample_main 21 19 23,
       ow_visibility = 8000,
       ow_wind = \<lparr> speed = 4, deg = Some 180 \<rparr>,
       ow_dt = 43200,
       ow_sys = \<lparr> sys_country = ''GB'', sys_sunrise = 21600, sys_sunset = 64800 \<rparr>,
       ow_name = ''Greenwich'' \<rparr>"

definition sample_hourAt :: "nat \<Rightarrow> nat" where
  \<comment> \<open>Loaded at 09:00, no change of the clock during the day.\<close>
  "sample_hourAt i = (9 + i) mod 24"

definition sample_rnd :: "nat \<Rightarrow> real" where
  "sample_rnd k = 1 / 2"

definition sample_app :: "string \<Rightarrow> app" where
  \<comment> \<open>The modules loaded with the key \<open>key\<close>.\<close>
  "sample_app key = load key sample_hourAt sample_rnd"

definition offline :: world where
  \<comment> \<open>No request succeeds.\<close>
  "offline =
     \<lparr> respondGeo = (\<lambda>r. Failure ''Failed to fetch'' None),
       respondWeather = (\<lambda>r. Failure ''Failed to fetch'' None),
       respondForecast = (\<lambda>r. Failure ''Failed to fetch'' None) \<rparr>"

definition forecast_down :: world where
  \<comment> \<open>The current weather is served, the forecast endpoint answers 500.\<close>
  "forecast_down =
     \<lparr> respondGeo = (\<lambda>r. Success []),
       respondWeather = (\<lambda>r. Success (sample_weather ''01d'')),
       respondForecast = (\<lambda>r. Failure ''HTTP 500: Internal Server Error'' (Some 500)) \<rparr>"

section \<open>The shape of a coordinate pair\<close>

definition numeral_text :: "bool \<Rightarrow> string \<Rightarrow> string option \<Rightarrow> string" where
  \<comment> \<open>A numeral: an optional minus sign, digits, and an optional fraction.\<close>
  "numeral_text neg ip fp =
     (if neg then ''-'' else []) @ ip @ (case fp of None \<Rightarrow> [] | Some f \<Rightarrow> CHR ''.'' # f)"

definition numeral_value :: "bool \<Rightarrow> string \<Rightarrow> string option \<Rightarrow> real" where
  \<comment> \<open>The number that the numeral denotes.\<close>
  "numeral_value neg ip fp =
     (if neg then - 1 else 1) *
     (real (decimal ip) + (case fp of None \<Rightarrow> 0 | Some f \<Rightarrow> real (decimal f) / 10 ^ length f))"

definition numeral_ok :: "string \<Rightarrow> string option \<Rightarrow> bool" where
  \<comment> \<open>At least one digit before the point and, with a point, at least one after it.\<close>
  "numeral_ok ip fp \<longleftrightarrow>
     ip \<noteq> [] \<and> list_all isDigit ip \<and>
     (case fp of None \<Rightarrow> True | Some f \<Rightarrow> f \<noteq> [] \<and> list_all isDigit f)"

section \<open>Properties\<close>

lemma length_directions: "length directions = 16"
  by (simp add: directions_def)

lemma windIndex_range:
  assumes "0 \<le> d" and "d \<le> 360"
  shows "0 \<le> windIndex d \<and> windIndex d < 16"
proof -
  have lo: "0 \<le> Math_round (d / 22.5)"
    using assms(1) by (simp add: Math_round_def)
  have "d / 22.5 + 1 / 2 < 17"
    using assms(2) by simp
  then have hi: "Math_round (d / 22.5) < 17"
    unfolding Math_round_def by (simp add: floor_less_iff)
  from lo hi show ?thesis
    by (simp add: windIndex_def js_rem_def sgn_if)
qed

text \<open>
  C7.  The wind direction is \<open>directions[round(degrees / 22.5) % 16]\<close> over the table
  N, NNE, NE, ENE, E, ESE, SE, SSE, S, SSW, SW, WSW, W, WNW, NW, NNW; 0 gives N, 45 gives
  NE, 180 gives S, 360 wraps to N, and every degree value from 0 to 360 yields an entry of
  the table.
\<close>

theorem getWindDirection_compass:
  "directions = [''N'', ''NNE'', ''NE'', ''ENE'', ''E'', ''ESE'', ''SE'', ''SSE'',
                 ''S'', ''SSW'', ''SW'', ''WSW'', ''W'', ''WNW'', ''NW'', ''NNW'']
   \<and> getWindDirection 0 = Some ''N''
   \<and> getWindDirection 45 = Some ''NE''
   \<and> getWindDirection 180 = Some ''S''
   \<and> getWindDirection 360 = Some ''N''
   \<and> (\<forall>d. 0 \<le> d \<and> d \<le> 360 \<longrightarrow>
         windIndex d = \<lfloor>d / 22.5 + 1 / 2\<rfloor> mod 16
         \<and> 0 \<le> windIndex d \<and> windIndex d < 16
         \<and> getWindDirection d = Some (directions ! nat (windIndex d))
         \<and> directions ! nat (windIndex d) \<in> set directions)"
proof -
  have r0: "Math_round (0 / 22.5) = 0" by (simp add: Math_round_def)
  have r45: "Math_round (45 / 22.5) = 2" by (simp add: Math_round_def)
  have r180: "Math_round (180 / 22.5) = 8" by (simp add: Math_round_def)
  have r360: "Math_round (360 / 22.5) = 16" by (simp add: Math_round_def)
  have p0: "getWindDirection 0 = Some ''N''"
    using r0 by (simp add: getWindDirection_def windIndex_def js_rem_def js_index_def directions_def)
  have p45: "getWindDirection 45 = Some ''NE''"
    using r45 by (simp add: getWindDirection_def windIndex_def js_rem_def js_index_def directions_def)
  have p180: "getWindDirection 180 = Some ''S''"
    using r180 by (simp add: getWindDirection_def windIndex_def js_rem_def js_index_def directions_def)
  have p360: "getWindDirection 360 = Some ''N''"
    using r360 by (simp add: getWindDirection_def windIndex_def js_rem_def js_index_def directions_def)
  have gen: "windIndex d = \<lfloor>d / 22.5 + 1 / 2\<rfloor> mod 16
         \<and> 0 \<le> windIndex d \<and> windIndex d < 16
         \<and> getWindDirection d = Some (directions ! nat (windIndex d))
         \<and> directions ! nat (windIndex d) \<in> set directions"
    if d: "0 \<le> d" "d \<le> 360" for d
  proof -
    have rng: "0 \<le> windIndex d \<and> windIndex d < 16"
      using windIndex_range [OF d] .
    have nonneg: "0 \<le> Math_round (d / 22.5)"
      using d(1) by (simp add: Math_round_def)
    have "js_rem (Math_round (d / 22.5)) 16 = Math_round (d / 22.5) mod 16"
      using nonneg by (cases "Math_round (d / 22.5) = 0") (simp_all add: js_rem_def sgn_if)
    then have idx: "windIndex d = \<lfloor>d / 22.5 + 1 / 2\<rfloor> mod 16"
      by (simp add: windIndex_def Math_round_def)
    have get: "getWindDirection d = Some (directions ! nat (windIndex d))"
      using rng by (simp add: getWindDirection_def js_index_def length_directions)
    have "nat (windIndex d) < length directions"
      using rng unfolding length_directions by linarith
    then have "directions ! nat (windIndex d) \<in> set directions"
      by (rule nth_mem)
    with rng idx get show ?thesis by simp
  qed
  have tbl: "directions = [''N'', ''NNE'', ''NE'', ''ENE'', ''E'', ''ESE'', ''SE'', ''SSE'',
                 ''S'', ''SSW'', ''SW'', ''WSW'', ''W'', ''WNW'', ''NW'', ''NNW'']"
    by (fact directions_def)
  from gen have all: "\<forall>d. 0 \<le> d \<and> d \<le> 360 \<longrightarrow>
         windIndex d = \<lfloor>d / 22.5 + 1 / 2\<rfloor> mod 16
         \<and> 0 \<le> windIndex d \<and> windIndex d < 16
         \<and> getWindDirection d = Some (directions ! nat (windIndex d))
         \<and> directions ! nat (windIndex d) \<in> set directions"
    by blast
  show ?thesis
    by (intro conjI) (fact tbl p0 p45 p180 p360 all)+
qed

theorem getWindDirection_compass_witness:
  "(0::real) \<le> 90 \<and> (90::real) \<le> 360 \<and> windIndex 90 = 4 \<and> getWindDirection 90 = Some ''E''"
proof -
  have "0 \<le> (90::real) \<and> (90::real) \<le> 360 \<longrightarrow>
         windIndex 90 = \<lfloor>(90::real) / 22.5 + 1 / 2\<rfloor> mod 16
         \<and> getWindDirection 90 = Some (directions ! nat (windIndex 90))"
    using getWindDirection_compass by blast
  moreover have "\<lfloor>(90::real) / 22.5 + 1 / 2\<rfloor> = 4" by simp
  ultimately show ?thesis by (simp add: directions_def)
qed

subsection \<open>Daily aggregation: high and low\<close>

lemma bucket_snoc:
  "bucket e (seen @ [item]) k =
     (if dayLabel e item = k then insert item (bucket e seen k) else bucket e seen k)"
  by (auto simp: bucket_def)

lemma bucket_finite: "finite (bucket e seen k)"
  by (simp add: bucket_def)

lemma bucket_nonempty: "k \<in> dayLabel e ` set seen \<Longrightarrow> bucket e seen k \<noteq> {}"
  by (auto simp: bucket_def)

lemma bucket_empty: "k \<notin> dayLabel e ` set seen \<Longrightarrow> bucket e seen k = {}"
  by (auto simp: bucket_def)

lemma addDay_cases:
  assumes "addDay e m item = Inr m'"
  obtains (fresh) d where "map_of m (dayLabel e item) = None"
      "m' = AList.update (dayLabel e item) d m" "d_day d = dayLabel e item"
      "d_high d = temp_max (fi_main item)" "d_low d = temp_min (fi_main item)"
  | (known) d0 d where "map_of m (dayLabel e item) = Some d0"
      "m' = AList.update (dayLabel e item) d m" "d_day d = d_day d0"
      "d_high d = max (d_high d0) (temp_max (fi_main item))"
      "d_low d = min (d_low d0) (temp_min (fi_main item))"
  using assms
  by (auto simp: addDay_def dayLabel_def Let_def split: option.splits list.splits if_splits)

lemma addDay_inv:
  assumes inv: "days_inv e seen m" and step: "addDay e m item = Inr m'"
  shows "days_inv e (seen @ [item]) m'"
proof -
  let ?k = "dayLabel e item"
  from inv have dist: "distinct (map fst m)"
    and dm: "dom (map_of m) = dayLabel e ` set seen"
    and vals: "\<And>k d. map_of m k = Some d \<Longrightarrow>
        d_day d = k \<and>
        d_high d = Max ((temp_max \<circ> fi_main) ` bucket e seen k) \<and>
        d_low d = Min ((temp_min \<circ> fi_main) ` bucket e seen k)"
    by (auto simp: days_inv_def)
  from step show ?thesis
  proof (cases rule: addDay_cases)
    case (fresh d)
    have emp: "bucket e seen ?k = {}"
      using fresh(1) dm by (intro bucket_empty) (auto simp: domIff)
    have new: "d_day d = ?k \<and>
        d_high d = Max ((temp_max \<circ> fi_main) ` bucket e (seen @ [item]) ?k) \<and>
        d_low d = Min ((temp_min \<circ> fi_main) ` bucket e (seen @ [item]) ?k)"
      using fresh emp by (simp add: bucket_snoc)
    show ?thesis
      unfolding days_inv_def fresh(2)
      using dist dm vals new
      by (auto simp: distinct_update update_conv' dom_update bucket_snoc split: if_splits)
  next
    case (known d0 d)
    have ne: "bucket e seen ?k \<noteq> {}"
      using known(1) dm by (intro bucket_nonempty) (auto simp: domIff)
    have old: "d_day d0 = ?k \<and>
        d_high d0 = Max ((temp_max \<circ> fi_main) ` bucket e seen ?k) \<and>
        d_low d0 = Min ((temp_min \<circ> fi_main) ` bucket e seen ?k)"
      using vals [OF known(1)] .
    have new: "d_day d = ?k \<and>
        d_high d = Max ((temp_max \<circ> fi_main) ` bucket e (seen @ [item]) ?k) \<and>
        d_low d = Min ((temp_min \<circ> fi_main) ` bucket e (seen @ [item]) ?k)"
      using known old ne bucket_finite [of e seen ?k]
      by (simp add: bucket_snoc max.commute min.commute)
    show ?thesis
      unfolding days_inv_def known(2)
      using dist dm vals new known(1)
      by (auto simp: distinct_update update_conv' dom_update bucket_snoc split: if_splits)
  qed
qed

lemma addDays_inv:
  "days_inv e seen m \<Longrightarrow> addDays e m items = Inr m' \<Longrightarrow> days_inv e (seen @ items) m'"
proof (induction items arbitrary: seen m)
  case Nil
  then show ?case by simp
next
  case (Cons item items)
  from Cons.prems(2) obtain m1 where
    s1: "addDay e m item = Inr m1" and s2: "addDays e m1 items = Inr m'"
    by (auto split: sum.splits)
  have "days_inv e (seen @ [item]) m1"
    using addDay_inv [OF Cons.prems(1) s1] .
  from Cons.IH [OF this s2] show ?case by simp
qed

lemma days_inv_empty: "days_inv e [] []"
  by (simp add: days_inv_def bucket_def)


lemma transformForecastData_days:
  assumes "transformForecastData e apiData = Inr wd"
  obtains m where "addDays e [] (fc_list apiData) = Inr m" and "daily wd = dailyOf m"
  using assms
  by (auto simp: transformForecastData_def split: sum.splits list.splits option.splits)

lemma daily_entry_bucket:
  assumes ok: "transformForecastData e apiData = Inr wd" and d: "d \<in> set (daily wd)"
  shows "bucket e (fc_list apiData) (d_day d) \<noteq> {}
     \<and> d_high d = Max ((temp_max \<circ> fi_main) ` bucket e (fc_list apiData) (d_day d))
     \<and> d_low d = Min ((temp_min \<circ> fi_main) ` bucket e (fc_list apiData) (d_day d))"
proof -
  from ok obtain m where m: "addDays e [] (fc_list apiData) = Inr m" and dl: "daily wd = dailyOf m"
    by (rule transformForecastData_days)
  have inv: "days_inv e (fc_list apiData) m"
    using addDays_inv [OF days_inv_empty m] by simp
  from d dl have "d \<in> set (map snd m)"
    by (auto simp: dailyOf_def dest: in_set_takeD)
  then obtain k where "(k, d) \<in> set m" by auto
  with inv have look: "map_of m k = Some d"
    by (simp add: days_inv_def)
  with inv have kd: "d_day d = k"
    and hi: "d_high d = Max ((temp_max \<circ> fi_main) ` bucket e (fc_list apiData) k)"
    and lo: "d_low d = Min ((temp_min \<circ> fi_main) ` bucket e (fc_list apiData) k)"
    by (auto simp: days_inv_def)
  from look inv have "k \<in> dayLabel e ` set (fc_list apiData)"
    by (auto simp: days_inv_def)
  then have "bucket e (fc_list apiData) k \<noteq> {}"
    by (rule bucket_nonempty)
  with kd hi lo show ?thesis by simp
qed

lemma daily_all_buckets:
  assumes ok: "transformForecastData e apiData = Inr wd"
    and few: "card (dayLabel e ` set (fc_list apiData)) \<le> 7"
  shows "d_day ` set (daily wd) = dayLabel e ` set (fc_list apiData)"
proof -
  from ok obtain m where m: "addDays e [] (fc_list apiData) = Inr m" and dl: "daily wd = dailyOf m"
    by (rule transformForecastData_days)
  have inv: "days_inv e (fc_list apiData) m"
    using addDays_inv [OF days_inv_empty m] by simp
  then have dist: "distinct (map fst m)"
    and dm: "dom (map_of m) = dayLabel e ` set (fc_list apiData)"
    by (auto simp: days_inv_def)
  have "length m = card (set (map fst m))"
    using dist distinct_card [of "map fst m"] by simp
  also have "set (map fst m) = dom (map_of m)"
    by (simp add: dom_map_of_conv_image_fst)
  finally have "length m \<le> 7"
    using few dm by simp
  then have all: "daily wd = map snd m"
    by (simp add: dl dailyOf_def)
  have "d_day (snd p) = fst p" if "p \<in> set m" for p
  proof -
    from that dist have "map_of m (fst p) = Some (snd p)" by simp
    with inv show ?thesis by (auto simp: days_inv_def)
  qed
  then have "d_day ` set (map snd m) = fst ` set m"
    by (auto simp: image_iff) force
  then show ?thesis
    using dm by (simp add: all dom_map_of_conv_image_fst)
qed

lemma bucket_cong: "set xs = set ys \<Longrightarrow> bucket e xs k = bucket e ys k"
  by (simp add: bucket_def)

text \<open>
  C4.  Every entry of the daily series carries, as \<open>high\<close>, the maximum of \<open>temp_max\<close> and,
  as \<open>low\<close>, the minimum of \<open>temp_min\<close> over all forecast entries with its weekday label.
  The bucket is a set, so the order of the entries does not matter (a payload listing the
  same entries in another order gives the same high and low for the day), and no icon or
  \<open>pop\<close> occurs in the two values.  With at most seven labels every bucket has its entry.
\<close>

theorem daily_high_low:
  assumes ok: "transformForecastData e apiData = Inr wd" and d: "d \<in> set (daily wd)"
  shows "bucket e (fc_list apiData) (d_day d) \<noteq> {}
     \<and> d_high d = Max ((temp_max \<circ> fi_main) ` bucket e (fc_list apiData) (d_day d))
     \<and> d_low d = Min ((temp_min \<circ> fi_main) ` bucket e (fc_list apiData) (d_day d))
     \<and> (\<forall>apiData' wd' d'.
           set (fc_list apiData') = set (fc_list apiData)
           \<and> transformForecastData e apiData' = Inr wd'
           \<and> d' \<in> set (daily wd') \<and> d_day d' = d_day d
           \<longrightarrow> d_high d' = d_high d \<and> d_low d' = d_low d)
     \<and> (card (dayLabel e ` set (fc_list apiData)) \<le> 7
           \<longrightarrow> d_day ` set (daily wd) = dayLabel e ` set (fc_list apiData))"
proof -
  note this_one = daily_entry_bucket [OF ok d]
  have other: "d_high d' = d_high d \<and> d_low d' = d_low d"
    if "set (fc_list apiData') = set (fc_list apiData)"
      and "transformForecastData e apiData' = Inr wd'"
      and "d' \<in> set (daily wd')" and "d_day d' = d_day d"
    for apiData' wd' d'
    using daily_entry_bucket [OF that(2) that(3)] this_one that(4)
      bucket_cong [OF that(1), of e "d_day d"]
    by simp
  from this_one other daily_all_buckets [OF ok] show ?thesis
    by blast
qed


lemmas sample_defs =
  sample_env_def sample_item_def sample_main_def sample_city_def weekdayNames_def
  sample_weather_def

lemmas icon_defs = iconOf_def iconMapping_get_def iconMapping_def objectPrototypeKeys_def

lemmas forecast_defs =
  transformForecastData_def addDay_def hourlyOf_def dailyOf_def Math_round_def truthy_or_def
  visibilityOf_def Let_def

theorem daily_high_low_witness:
  "(let r = transformForecastData sample_env two_days; wd = projr r; d = hd (daily wd)
    in r = Inr wd \<and> d \<in> set (daily wd) \<and> d_day d = ''Thu''
       \<and> Max ((temp_max \<circ> fi_main) ` bucket sample_env (fc_list two_days) ''Thu'') = 21
       \<and> Min ((temp_min \<circ> fi_main) ` bucket sample_env (fc_list two_days) ''Thu'') = 8
       \<and> d_high d = 21 \<and> d_low d = 8
       \<and> d_day ` set (daily wd) = {''Thu'', ''Fri''})"
proof -
  define wd where "wd = projr (transformForecastData sample_env two_days)"
  define d where "d = hd (daily wd)"
  have ds: "map (\<lambda>x. (d_day x, d_high x, d_low x)) (daily wd) = [(''Thu'', 21, 8), (''Fri'', 12, 9)]"
    unfolding wd_def by (simp add: forecast_defs icon_defs sample_defs two_days_def)
  have ok: "transformForecastData sample_env two_days = Inr wd"
    unfolding wd_def by (simp add: forecast_defs icon_defs sample_defs two_days_def)
  from ds have ne: "daily wd \<noteq> []" by auto
  then have mem: "d \<in> set (daily wd)" by (simp add: d_def)
  from ds ne have vals: "d_day d = ''Thu'' \<and> d_high d = 21 \<and> d_low d = 8"
    by (cases "daily wd") (simp_all add: d_def)
  from ds have days: "d_day ` set (daily wd) = {''Thu'', ''Fri''}"
  proof -
    have "d_day ` set (daily wd) = set (map fst (map (\<lambda>x. (d_day x, d_high x, d_low x)) (daily wd)))"
      by (simp add: image_image comp_def)
    then show ?thesis by (simp add: ds)
  qed
  from daily_high_low [OF ok mem] vals
  have "Max ((temp_max \<circ> fi_main) ` bucket sample_env (fc_list two_days) ''Thu'') = 21
      \<and> Min ((temp_min \<circ> fi_main) ` bucket sample_env (fc_list two_days) ''Thu'') = 8"
    by simp
  with ok mem vals days show ?thesis
    by (simp add: Let_def wd_def [symmetric] d_def [symmetric])
qed

subsection \<open>Daily aggregation: the representative entry\<close>

lemma addDay_known_bucket:
  assumes "map_of m (dayLabel e item) = Some d0" and "fi_weather item = w0 # ws"
  shows "addDay e m item =
           Inr (AList.update (dayLabel e item)
                  (if fi_pop item > d_precipitation d0
                   then d0 \<lparr> d_high := max (d_high d0) (temp_max (fi_main item)),
                             d_low := min (d_low d0) (temp_min (fi_main item)),
                             d_icon := iconOf (w_icon w0),
                             d_description := Some (w_description w0),
                             d_precipitation := of_int (Math_round (fi_pop item * 100)) \<rparr>
                   else d0 \<lparr> d_high := max (d_high d0) (temp_max (fi_main item)),
                             d_low := min (d_low d0) (temp_min (fi_main item)) \<rparr>)
                  m)"
  using assms by (auto simp: addDay_def dayLabel_def Let_def truthy_or_def)

text \<open>
  C3.  The code's comment asks for the icon and description of the entry with the highest
  \<open>pop\<close>.  The comparison sets the new entry's \<open>pop\<close>, a probability between 0 and 1, against
  the bucket's \<open>precipitation\<close>, a percentage: on the payload \<open>rain_later\<close> the rain at
  06:00 (pop 0.75) does not replace the clear sky of 03:00 (pop 0.25, stored as 25), while
  high and low do follow both entries.
\<close>

theorem daily_representative_keeps_lower_pop:
  "map_sum id (map (\<lambda>d. (d_day d, d_icon d, d_description d, d_precipitation d, d_high d, d_low d))
                 \<circ> daily)
     (transformForecastData sample_env rain_later)
   = Inr [(''Thu'', Tag Sunny, Some ''clear sky'', 25, 18, 10)]"
  by (simp add: forecast_defs icon_defs sample_defs rain_later_def)

subsection \<open>Icon mapping\<close>

lemma iconOf_table:
  "map (iconOf \<circ> fst) iconMapping = map (Tag \<circ> snd) iconMapping"
  by (simp add: icon_defs)

lemma iconOf_day_night:
  "iconOf ''01d'' = Tag Sunny \<and> iconOf ''01n'' = Tag Sunny
   \<and> iconOf ''10d'' = Tag Rainy \<and> iconOf ''10n'' = Tag Rainy"
  by (simp add: icon_defs)

lemma iconOf_default:
  "code \<notin> fst ` set iconMapping \<Longrightarrow> code \<notin> set objectPrototypeKeys \<Longrightarrow> iconOf code = Tag Sunny"
  by (simp add: iconOf_def iconMapping_get_def map_of_eq_None_iff [THEN iffD2])

text \<open>
  C6.  The table's eighteen codes give their tags, and a code that is no property of the
  table gives sunny.  The table is an object literal, though, and a code that names a
  property it inherits (constructor, toString, ...) reads that member, which is truthy:
  the icon is then no condition tag.
\<close>

theorem iconOf_inherited_key:
  "''constructor'' \<notin> fst ` set iconMapping
   \<and> iconOf ''constructor'' = Inherited ''constructor''
   \<and> map_sum id (c_icon \<circ> current) (transformWeatherData e (sample_weather ''constructor''))
       = Inr (Inherited ''constructor'')"
  by (simp add: transformWeatherData_def icon_defs sample_weather_def)



subsection \<open>The mock dataset\<close>

lemma forecastLoop_length: "length (forecastLoop hourAt rnd i k) = 24 - i"
proof (induction hourAt rnd i k rule: forecastLoop.induct)
  case (1 hourAt rnd i k)
  show ?case
  proof (cases "i < 24")
    case True
    obtain entry k' where step: "hourEntry hourAt rnd i k = (entry, k')"
      by (cases "hourEntry hourAt rnd i k")
    have "length (forecastLoop hourAt rnd (i + 1) k') = 24 - (i + 1)"
      using "1.IH" [OF True step [symmetric]] .
    with True step show ?thesis
      by (subst forecastLoop.simps) simp
  next
    case False
    then show ?thesis
      by (subst forecastLoop.simps) simp
  qed
qed

lemma hourEntry_first: "h_time (fst (hourEntry hourAt rnd 0 k)) = ''Now''"
  by (simp add: hourEntry_def Let_def split: prod.splits)

lemma generate24HourForecast_first:
  "h_time (hd (generate24HourForecast hourAt rnd)) = ''Now''"
proof -
  obtain entry k' where step: "hourEntry hourAt rnd 0 0 = (entry, k')"
    by (cases "hourEntry hourAt rnd 0 0")
  have "hd (generate24HourForecast hourAt rnd) = entry"
    unfolding generate24HourForecast_def
    by (subst forecastLoop.simps) (simp add: step)
  moreover have "h_time entry = ''Now''"
    using hourEntry_first [of hourAt rnd 0] step by simp
  ultimately show ?thesis by simp
qed

text \<open>
  C9.  Whatever the clock shows and whatever random numbers are drawn while the module is
  loaded, the mock dataset has 24 hourly entries and 7 daily entries, and its first hourly
  entry is labelled Now; that dataset is what the loaded modules hold.
\<close>

theorem mockWeatherData_shape:
  "length (hourly (mockWeatherData hourAt rnd)) = 24
   \<and> length (daily (mockWeatherData hourAt rnd)) = 7
   \<and> h_time (hd (hourly (mockWeatherData hourAt rnd))) = ''Now''
   \<and> mock (load key hourAt rnd) = mockWeatherData hourAt rnd"
  by (simp add: mockWeatherData_def generate24HourForecast_def forecastLoop_length
      generate24HourForecast_first [unfolded generate24HourForecast_def] load_def)

subsection \<open>Services\<close>

lemma apiClient_get_failure:
  "respond (apiClient_url a url ps) = Failure msg st \<Longrightarrow>
   apiClient_get a respond url ps = (Inl (WeatherAPIError msg st), [apiClient_url a url ps])"
  by (simp add: apiClient_get_def apiClient_request_def Let_def)

lemma apiClient_get_success:
  "respond (apiClient_url a url ps) = Success v \<Longrightarrow>
   apiClient_get a respond url ps = (Inr v, [apiClient_url a url ps])"
  by (simp add: apiClient_get_def apiClient_request_def Let_def)

lemma apiClient_get_requests:
  "snd (apiClient_get a respond url ps) = [apiClient_url a url ps]"
  by (simp add: apiClient_get_def Let_def)

lemma getCurrentWeather_requests:
  "snd (getCurrentWeather a e w la lo) = [apiClient_url a (BASE_URL @ ''/weather'') (coordParams la lo)]"
  by (simp add: getCurrentWeather_def apiClient_get_def Let_def split: sum.splits)

lemma getForecast_requests:
  "snd (getForecast a e w la lo) = [apiClient_url a (BASE_URL @ ''/forecast'') (coordParams la lo)]"
  by (simp add: getForecast_def apiClient_get_def Let_def split: sum.splits)

lemma getCurrentWeather_failure:
  "respondWeather w (apiClient_url a (BASE_URL @ ''/weather'') (coordParams la lo)) = Failure msg st
   \<Longrightarrow> fst (getCurrentWeather a e w la lo) = mock a"
  by (simp add: getCurrentWeather_def apiClient_get_failure getMockWeatherData_def)

lemma getForecast_failure:
  "respondForecast w (apiClient_url a (BASE_URL @ ''/forecast'') (coordParams la lo)) = Failure msg st
   \<Longrightarrow> fst (getForecast a e w la lo) = mock a"
  by (simp add: getForecast_def apiClient_get_failure getMockWeatherData_def)

lemma getCurrentWeather_success:
  "respondWeather w (apiClient_url a (BASE_URL @ ''/weather'') (coordParams la lo)) = Success p
   \<Longrightarrow> transformWeatherData e p = Inr wd
   \<Longrightarrow> fst (getCurrentWeather a e w la lo) = wd"
  by (simp add: getCurrentWeather_def apiClient_get_success)

lemma getForecast_success:
  "respondForecast w (apiClient_url a (BASE_URL @ ''/forecast'') (coordParams la lo)) = Success p
   \<Longrightarrow> transformForecastData e p = Inr wd
   \<Longrightarrow> fst (getForecast a e w la lo) = wd"
  by (simp add: getForecast_def apiClient_get_success)

lemma fetchWeatherData_usable:
  assumes "resolveCoords a e w loc = (c, reqs0)" and "usable a c = Some (la, lo)"
  shows "fetchWeatherData a e w loc =
           (fst (getCurrentWeather a e w la lo)
              \<lparr> hourly := hourly (fst (getForecast a e w la lo)),
                daily := daily (fst (getForecast a e w la lo)) \<rparr>,
            reqs0 @ [apiClient_url a (BASE_URL @ ''/weather'') (coordParams la lo),
                     apiClient_url a (BASE_URL @ ''/forecast'') (coordParams la lo)])"
  using assms getCurrentWeather_requests [of a e w la lo] getForecast_requests [of a e w la lo]
  by (cases "getCurrentWeather a e w la lo"; cases "getForecast a e w la lo")
     (simp add: fetchWeatherData_def)

lemma fetchWeatherData_unusable:
  assumes "resolveCoords a e w loc = (c, reqs0)" and "usable a c = None"
  shows "fetchWeatherData a e w loc = (mock a, reqs0)"
  using assms by (simp add: fetchWeatherData_def)


subsection \<open>Location search\<close>

lemma str_includes_iff: "str_includes s t \<longleftrightarrow> (\<exists>u v. s = u @ t @ v)"
proof (induction s)
  case Nil
  then show ?case by auto
next
  case (Cons c s)
  have pre: "take (length t) (c # s) = t \<longleftrightarrow> (\<exists>v. c # s = t @ v)"
    by (metis append_eq_conv_conj append_take_drop_id)
  show ?case
  proof
    assume "str_includes (c # s) t"
    then consider "take (length t) (c # s) = t" | "str_includes s t" by auto
    then show "\<exists>u v. c # s = u @ t @ v"
    proof cases
      case 1
      with pre obtain v where "c # s = [] @ t @ v" by auto
      then show ?thesis by blast
    next
      case 2
      with Cons.IH obtain u v where "s = u @ t @ v" by auto
      then have "c # s = (c # u) @ t @ v" by simp
      then show ?thesis by blast
    qed
  next
    assume "\<exists>u v. c # s = u @ t @ v"
    then obtain u v where uv: "c # s = u @ t @ v" by auto
    show "str_includes (c # s) t"
    proof (cases u)
      case Nil
      with uv have "\<exists>v. c # s = t @ v" by auto
      with pre have "take (length t) (c # s) = t" by blast
      then show ?thesis by simp
    next
      case (Cons c' u')
      with uv have "s = u' @ t @ v" by simp
      with Cons.IH show ?thesis by auto
    qed
  qed
qed

lemma searchLocations_blank: "trim q = [] \<Longrightarrow> searchLocations a e w q limit = ([], [])"
  by (simp add: searchLocations_def)

lemma searchLocations_requests:
  "trim q \<noteq> [] \<Longrightarrow>
   snd (searchLocations a e w q limit) =
     [apiClient_url a (GEO_URL @ ''/direct'') [(''q'', PStr q), (''limit'', PNum limit)]]"
  by (simp add: searchLocations_def apiClient_get_def Let_def split: sum.splits)

text \<open>
  C8 (as amended).  When the geocoding request of a search fails, the search does not pass
  the error on: it answers with the mock locations whose lower-cased name contains the
  lower-cased query, in the order of the mock list.  The answer is empty only when no mock
  name contains the query.
\<close>

theorem searchLocations_failure:
  assumes "trim q \<noteq> []"
    and "respondGeo w (apiClient_url a (GEO_URL @ ''/direct'') [(''q'', PStr q), (''limit'', PNum limit)])
           = Failure msg st"
  shows "searchLocations a e w q limit =
           (getMockLocationSuggestions q,
            [apiClient_url a (GEO_URL @ ''/direct'') [(''q'', PStr q), (''limit'', PNum limit)]])
     \<and> getMockLocationSuggestions q =
         filter (\<lambda>l. \<exists>u v. toLowerCase (ls_name l) = u @ toLowerCase q @ v) mockLocations
     \<and> (fst (searchLocations a e w q limit) = []
          \<longleftrightarrow> (\<forall>l \<in> set mockLocations. \<not> str_includes (toLowerCase (ls_name l)) (toLowerCase q)))"
proof -
  have res: "searchLocations a e w q limit =
           (getMockLocationSuggestions q,
            [apiClient_url a (GEO_URL @ ''/direct'') [(''q'', PStr q), (''limit'', PNum limit)]])"
    using assms by (simp add: searchLocations_def apiClient_get_failure)
  have flt: "getMockLocationSuggestions q =
         filter (\<lambda>l. \<exists>u v. toLowerCase (ls_name l) = u @ toLowerCase q @ v) mockLocations"
    by (simp add: getMockLocationSuggestions_def str_includes_iff)
  have "getMockLocationSuggestions q = []
          \<longleftrightarrow> (\<forall>l \<in> set mockLocations. \<not> str_includes (toLowerCase (ls_name l)) (toLowerCase q))"
    by (simp add: getMockLocationSuggestions_def filter_empty_conv)
  with res flt show ?thesis by simp
qed

lemma toLower_London: "toLowerCase ''London'' = ''london''"
  by code_simp

lemma mock_names_lower:
  "map (toLowerCase \<circ> ls_name) mockLocations = [''new york'', ''london'', ''tokyo'', ''paris'', ''sydney'']"
  by code_simp

lemma getMock_London: "map ls_name (getMockLocationSuggestions ''London'') = [''London'']"
  by code_simp

theorem searchLocations_failure_witness:
  "trim ''London'' \<noteq> []
   \<and> respondGeo offline (apiClient_url (sample_app ''KEY'') (GEO_URL @ ''/direct'')
                           [(''q'', PStr ''London''), (''limit'', PNum 5)])
       = Failure ''Failed to fetch'' None
   \<and> map ls_name (fst (searchLocations (sample_app ''KEY'') sample_env offline ''London'' 5)) = [''London'']"
proof -
  have t: "trim ''London'' \<noteq> []" by code_simp
  have f: "respondGeo offline (apiClient_url (sample_app ''KEY'') (GEO_URL @ ''/direct'')
                           [(''q'', PStr ''London''), (''limit'', PNum 5)])
       = Failure ''Failed to fetch'' None"
    by (simp add: offline_def)
  from searchLocations_failure [OF t f, of sample_env]
  have "fst (searchLocations (sample_app ''KEY'') sample_env offline ''London'' 5)
          = getMockLocationSuggestions ''London''"
    by simp
  with t f getMock_London show ?thesis by simp
qed

text \<open>
  C8 as stated fails: with every request failing, the search for York answers with the
  mock location New York, not with an empty list.
\<close>

theorem searchLocations_failure_counterexample:
  "respondGeo offline (apiClient_url (sample_app []) (GEO_URL @ ''/direct'')
                           [(''q'', PStr ''York''), (''limit'', PNum 5)])
       = Failure ''Failed to fetch'' None
   \<and> map ls_name (fst (searchLocations (sample_app []) sample_env offline ''York'' 5)) = [''New York'']
   \<and> fst (searchLocations (sample_app []) sample_env offline ''York'' 5) \<noteq> []"
proof -
  have t: "trim ''York'' \<noteq> []" by code_simp
  have f: "respondGeo offline (apiClient_url (sample_app []) (GEO_URL @ ''/direct'')
                           [(''q'', PStr ''York''), (''limit'', PNum 5)])
       = Failure ''Failed to fetch'' None"
    by (simp add: offline_def)
  have g: "map ls_name (getMockLocationSuggestions ''York'') = [''New York'']"
    by code_simp
  have r: "fst (searchLocations (sample_app []) sample_env offline ''York'' 5)
          = getMockLocationSuggestions ''York''"
    using t f by (simp add: searchLocations_def apiClient_get_failure)
  from g have "getMockLocationSuggestions ''York'' \<noteq> []" by auto
  with f g r show ?thesis by simp
qed



subsection \<open>The fetch without an API key\<close>

lemma usable_unconfigured: "\<not> isAPIConfigured a \<Longrightarrow> usable a c = None"
  by (simp add: usable_def)

lemma apiClient_url_no_key:
  "\<not> isAPIConfigured a \<Longrightarrow> apiClient_url a url ps = \<lparr> endpoint = url, params = ps \<rparr>"
  by (simp add: apiClient_url_def isAPIConfigured_def)

lemma resolveCoords_requests:
  "snd (resolveCoords a e w loc) =
     (case loc of
        None \<Rightarrow> []
      | Some s \<Rightarrow>
          if s = [] \<or> regex_test coordPattern s \<or> trim s = [] then []
          else [apiClient_url a (GEO_URL @ ''/direct'') [(''q'', PStr s), (''limit'', PNum 1)]])"
proof (cases loc)
  case None
  then show ?thesis by (simp add: resolveCoords_def)
next
  case (Some s)
  show ?thesis
  proof (cases "s = [] \<or> regex_test coordPattern s")
    case True
    with Some show ?thesis
      by (auto simp: resolveCoords_def parseLocation_def Let_def)
  next
    case False
    then have parse: "resolveCoords a e w loc =
        (case searchLocations a e w s 1 of
           (r # _, reqs) \<Rightarrow>
             (Some \<lparr> lat = Some (Num (ls_lat r)), lon = Some (Num (ls_lon r)) \<rparr>, reqs)
         | ([], reqs) \<Rightarrow> (None, reqs))"
      using Some by (simp add: resolveCoords_def parseLocation_def)
    have "snd (resolveCoords a e w loc) = snd (searchLocations a e w s 1)"
      unfolding parse by (simp split: prod.splits list.splits)
    also have "\<dots> = (if trim s = [] then []
        else [apiClient_url a (GEO_URL @ ''/direct'') [(''q'', PStr s), (''limit'', PNum 1)]])"
      by (simp add: searchLocations_blank searchLocations_requests)
    finally show ?thesis
      using Some False by simp
  qed
qed

text \<open>
  C2 (as amended).  Without an API key the fetch hands the mock dataset to the view and
  sends no weather and no forecast request.  It sends no request at all when the location
  is missing, empty, blank or a coordinate pair; for any other location it sends one
  geocoding request (endpoint direct, limit 1, no appid), whose result it does not use.
\<close>

theorem fetch_without_key:
  assumes "\<not> isAPIConfigured a"
  shows "fst (fetchWeatherData a e w loc) = mock a
     \<and> snd (fetchWeatherData a e w loc) =
         (case loc of
            None \<Rightarrow> []
          | Some s \<Rightarrow>
              if s = [] \<or> regex_test coordPattern s \<or> trim s = [] then []
              else [\<lparr> endpoint = GEO_URL @ ''/direct'',
                      params = [(''q'', PStr s), (''limit'', PNum 1)] \<rparr>])
     \<and> (\<forall>r \<in> set (snd (fetchWeatherData a e w loc)).
           endpoint r \<noteq> BASE_URL @ ''/weather'' \<and> endpoint r \<noteq> BASE_URL @ ''/forecast'')"
proof -
  obtain c reqs0 where rc: "resolveCoords a e w loc = (c, reqs0)"
    by (cases "resolveCoords a e w loc")
  have f: "fetchWeatherData a e w loc = (mock a, reqs0)"
    using fetchWeatherData_unusable [OF rc usable_unconfigured [OF assms]] .
  have "reqs0 = snd (resolveCoords a e w loc)"
    by (simp add: rc)
  then have reqs: "reqs0 =
         (case loc of
            None \<Rightarrow> []
          | Some s \<Rightarrow>
              if s = [] \<or> regex_test coordPattern s \<or> trim s = [] then []
              else [\<lparr> endpoint = GEO_URL @ ''/direct'',
                      params = [(''q'', PStr s), (''limit'', PNum 1)] \<rparr>])"
    by (simp add: resolveCoords_requests apiClient_url_no_key [OF assms] split: option.splits)
  have urls: "GEO_URL @ ''/direct'' \<noteq> BASE_URL @ ''/weather''
      \<and> GEO_URL @ ''/direct'' \<noteq> BASE_URL @ ''/forecast''"
    by (simp add: GEO_URL_def BASE_URL_def)
  have "\<forall>r \<in> set reqs0.
           endpoint r \<noteq> BASE_URL @ ''/weather'' \<and> endpoint r \<noteq> BASE_URL @ ''/forecast''"
    unfolding reqs using urls by (auto split: option.splits if_splits)
  with f reqs show ?thesis by simp
qed

lemma no_key: "\<not> isAPIConfigured (sample_app [])"
  by (simp add: isAPIConfigured_def sample_app_def load_def)

lemma London_not_coordinates: "\<not> regex_test coordPattern ''London''"
  by (simp add: coordPattern_def signedDecimal_def Opt_def Plus_def isDigit_def isSpace_def)

lemma London_not_blank: "trim ''London'' \<noteq> []"
  by code_simp

theorem fetch_without_key_witness:
  "\<not> isAPIConfigured (sample_app [])
   \<and> fst (fetchWeatherData (sample_app []) sample_env offline (Some ''51.5,0.25'')) = mock (sample_app [])
   \<and> snd (fetchWeatherData (sample_app []) sample_env offline (Some ''51.5,0.25'')) = []"
proof -
  have m: "regex_test coordPattern ''51.5,0.25''"
    by (simp add: coordPattern_def signedDecimal_def Opt_def Plus_def isDigit_def isSpace_def)
  from fetch_without_key [OF no_key, of sample_env offline "Some ''51.5,0.25''"] m no_key
  show ?thesis by simp
qed

text \<open>
  C2 as stated fails: without a key, the fetch for London sends a geocoding request.
\<close>

theorem fetch_without_key_counterexample:
  "\<not> isAPIConfigured (sample_app [])
   \<and> snd (fetchWeatherData (sample_app []) sample_env offline (Some ''London''))
       = [\<lparr> endpoint = ''https://api.openweathermap.org/geo/1.0/direct'',
             params = [(''q'', PStr ''London''), (''limit'', PNum 1)] \<rparr>]
   \<and> snd (fetchWeatherData (sample_app []) sample_env offline (Some ''London'')) \<noteq> []"
proof -
  obtain c reqs0 where rc: "resolveCoords (sample_app []) sample_env offline (Some ''London'') = (c, reqs0)"
    by (cases "resolveCoords (sample_app []) sample_env offline (Some ''London'')")
  have f: "fetchWeatherData (sample_app []) sample_env offline (Some ''London'') = (mock (sample_app []), reqs0)"
    using fetchWeatherData_unusable [OF rc usable_unconfigured [OF no_key]] .
  have "reqs0 = snd (resolveCoords (sample_app []) sample_env offline (Some ''London''))"
    by (simp add: rc)
  then have "reqs0 = [\<lparr> endpoint = ''https://api.openweathermap.org/geo/1.0/direct'',
             params = [(''q'', PStr ''London''), (''limit'', PNum 1)] \<rparr>]"
    using London_not_coordinates London_not_blank
    by (simp add: resolveCoords_requests apiClient_url_no_key [OF no_key] GEO_URL_def)
  with f no_key show ?thesis by simp
qed


subsection \<open>Number values\<close>

lemma round_even_lower: "\<lfloor>x\<rfloor> \<le> round_even x"
  by (simp add: round_even_def Let_def)

lemma round_even_int: "round_even (of_int n) = n"
  by (simp add: round_even_def Let_def)

lemma floor_log2_powi:
  assumes "0 < a" and "2 powi e \<le> a" and "a < 2 powi (e + 1)"
  shows "\<lfloor>log 2 a\<rfloor> = e"
proof -
  have p1: "(2::real) powr real_of_int e = 2 powi e"
    and p2: "(2::real) powr real_of_int (e + 1) = 2 powi (e + 1)"
    by (rule powr_real_of_int'; simp)+
  have "(\<lfloor>log 2 a\<rfloor> = e) = (2 powr real_of_int e \<le> a \<and> a < 2 powr real_of_int (e + 1))"
    using assms(1) by (intro floor_log_eq_powr_iff) simp_all
  with assms(2,3) show ?thesis
    unfolding p1 p2 by blast
qed

lemma floor_log2_upper:
  assumes "0 < a"
  shows "a < 2 powi (\<lfloor>log 2 a\<rfloor> + 1)"
proof -
  have "a < 2 powr real_of_int (\<lfloor>log 2 a\<rfloor> + 1)"
    using floor_log_eq_powr_iff [of a 2 "\<lfloor>log 2 a\<rfloor>"] assms by simp
  moreover have "(2::real) powr real_of_int (\<lfloor>log 2 a\<rfloor> + 1) = 2 powi (\<lfloor>log 2 a\<rfloor> + 1)"
    by (rule powr_real_of_int'; simp)
  ultimately show ?thesis by simp
qed

lemma floor_log2_lower:
  assumes "0 < a"
  shows "2 powi \<lfloor>log 2 a\<rfloor> \<le> a"
proof -
  have "2 powr real_of_int \<lfloor>log 2 a\<rfloor> \<le> a"
    using floor_log_eq_powr_iff [of a 2 "\<lfloor>log 2 a\<rfloor>"] assms by simp
  then show ?thesis by (simp add: powr_real_of_int')
qed

lemma binary64_abs_exact:
  assumes "0 < a" and "2 powi e \<le> a" and "a < 2 powi (e + 1)" and "- 1022 \<le> e"
    and "a / 2 powi (e - 52) = of_int n"
  shows "binary64_abs a = a"
proof -
  have e: "max \<lfloor>log 2 a\<rfloor> (- 1022) = e"
    using floor_log2_powi [OF assms(1-3)] assms(4) by simp
  have q: "(2::real) powi (e - 52) \<noteq> 0" by simp
  have "of_int (round_even (a / 2 powi (e - 52))) * 2 powi (e - 52) = a"
    using assms(5) q by (simp add: round_even_int field_simps)
  then show ?thesis
    by (simp add: binary64_abs_def Let_def e)
qed

lemma binary64_exact:
  assumes "0 < a" and "2 powi e \<le> a" and "a < 2 powi (e + 1)" and "- 1022 \<le> e" and "e < 1024"
    and "a / 2 powi (e - 52) = of_int n"
  shows "binary64 a = Num a" and "binary64 (- a) = Num (- a)"
proof -
  have v: "binary64_abs a = a"
    using assms(1-4,6) by (rule binary64_abs_exact)
  have "(2::real) powi (e + 1) \<le> 2 powi 1024"
    using assms(5) by (intro power_int_increasing) simp_all
  with assms(3) have lt: "a < 2 ^ 1024" by simp
  show "binary64 a = Num a"
    using assms(1) lt by (simp add: binary64_def v)
  show "binary64 (- a) = Num (- a)"
    using assms(1) lt by (simp add: binary64_def v)
qed

lemma binary64_overflow:
  assumes "2 ^ 1024 \<le> x"
  shows "binary64 x = PosInfinity"
proof -
  have pos: "0 < x"
    using assms by (rule less_le_trans [rotated]) simp
  define e where "e = \<lfloor>log 2 x\<rfloor>"
  have big: "1024 \<le> e"
  proof (rule ccontr)
    assume "\<not> 1024 \<le> e"
    then have "(2::real) powi (e + 1) \<le> 2 powi 1024"
      by (intro power_int_increasing) simp_all
    moreover have "x < 2 powi (e + 1)"
      unfolding e_def using pos by (rule floor_log2_upper)
    ultimately show False using assms by simp
  qed
  then have m: "max e (- 1022) = e" by simp
  let ?q = "(2::real) powi (e - 52)"
  have qpos: "0 < ?q" by simp
  have low: "2 powi e \<le> x"
    unfolding e_def using pos by (rule floor_log2_lower)
  have split: "(2::real) powi e = 2 ^ 52 * ?q"
    by (simp add: power_int_diff)
  then have "2 ^ 52 \<le> x / ?q"
    using low qpos by (simp add: field_simps)
  then have "(2::int) ^ 52 \<le> \<lfloor>x / ?q\<rfloor>"
    by (simp add: le_floor_iff)
  with round_even_lower [of "x / ?q"] have "(2::int) ^ 52 \<le> round_even (x / ?q)"
    by linarith
  then have "(2::real) ^ 52 \<le> of_int (round_even (x / ?q))"
    by (metis of_int_le_iff of_int_numeral of_int_power)
  then have "2 ^ 52 * ?q \<le> of_int (round_even (x / ?q)) * ?q"
    using qpos by (intro mult_right_mono) simp_all
  with split have "2 powi e \<le> binary64_abs x"
    by (simp add: binary64_abs_def Let_def e_def [symmetric] m)
  moreover have "(2::real) powi 1024 \<le> 2 powi e"
    using big by (intro power_int_increasing) simp_all
  ultimately have "2 ^ 1024 \<le> binary64_abs x"
    by simp
  with pos show ?thesis
    by (simp add: binary64_def)
qed

lemma binary64_underflow:
  assumes "0 < x" and "x < 2 powi (- 1075)"
  shows "binary64 x = Num 0"
proof -
  have small: "x < 2 powi (- 1022)"
    using assms(2) by (rule less_le_trans) (intro power_int_increasing, simp_all)
  have "\<lfloor>log 2 x\<rfloor> \<le> - 1022"
  proof (rule ccontr)
    assume "\<not> \<lfloor>log 2 x\<rfloor> \<le> - 1022"
    then have "(2::real) powi (- 1022) \<le> 2 powi \<lfloor>log 2 x\<rfloor>"
      by (intro power_int_increasing) simp_all
    with floor_log2_lower [OF assms(1)] small show False by linarith
  qed
  then have m: "max \<lfloor>log 2 x\<rfloor> (- 1022) = - 1022" by simp
  let ?q = "(2::real) powi (- 1074)"
  have half: "(2::real) powi (- 1075) = ?q / 2"
    using power_int_add_1 [of "2::real" "- 1075"] by simp
  have qpos: "0 < ?q" by simp
  from assms(1) qpos have r1: "0 < x / ?q" by simp
  from assms(2) half qpos have r2: "x / ?q < 1 / 2"
    by (simp add: pos_divide_less_eq)
  note r = r1 r2
  then have "\<lfloor>x / ?q\<rfloor> = 0" by (simp add: floor_eq_iff)
  with r have "round_even (x / ?q) = 0"
    by (simp add: round_even_def Let_def)
  then have "binary64_abs x = 0"
    by (simp add: binary64_abs_def Let_def m)
  with assms(1) show ?thesis
    by (simp add: binary64_def)
qed

lemma binary64_greenwich_lat: "binary64 51.5 = Num 51.5"
  by (rule binary64_exact(1) [where e = 5 and n = "103 * 2 ^ 46"])
     (simp_all add: power_int_def power_one_over)

lemma binary64_greenwich_lon: "binary64 0.25 = Num 0.25"
  by (rule binary64_exact(1) [where e = "- 2" and n = "2 ^ 52"])
     (simp_all add: power_int_def power_one_over)

subsection \<open>The fetch when one request fails\<close>

lemma getCurrentWeather_step:
  "fst (getCurrentWeather a e w la lo) =
     (case currentStep a e w la lo of None \<Rightarrow> mock a | Some wd \<Rightarrow> wd)"
  by (simp add: getCurrentWeather_def currentStep_def apiClient_get_def apiClient_request_def
      Let_def getMockWeatherData_def split: response.splits sum.splits)

lemma getForecast_step:
  "fst (getForecast a e w la lo) =
     (case forecastStep a e w la lo of None \<Rightarrow> mock a | Some wd \<Rightarrow> wd)"
  by (simp add: getForecast_def forecastStep_def apiClient_get_def apiClient_request_def
      Let_def getMockWeatherData_def split: response.splits sum.splits)

lemma currentStep_None:
  "currentStep a e w la lo = None \<longleftrightarrow>
     (\<exists>msg st. respondWeather w (apiClient_url a (BASE_URL @ ''/weather'') (coordParams la lo))
                 = Failure msg st)
     \<or> (\<exists>p err. respondWeather w (apiClient_url a (BASE_URL @ ''/weather'') (coordParams la lo))
                   = Success p \<and> transformWeatherData e p = Inl err)"
  by (auto simp: currentStep_def split: response.splits sum.splits)

lemma forecastStep_None:
  "forecastStep a e w la lo = None \<longleftrightarrow>
     (\<exists>msg st. respondForecast w (apiClient_url a (BASE_URL @ ''/forecast'') (coordParams la lo))
                 = Failure msg st)
     \<or> (\<exists>p err. respondForecast w (apiClient_url a (BASE_URL @ ''/forecast'') (coordParams la lo))
                   = Success p \<and> transformForecastData e p = Inl err)"
  by (auto simp: forecastStep_def split: response.splits sum.splits)

lemma currentStep_Some:
  "currentStep a e w la lo = Some cur \<longleftrightarrow>
     (\<exists>p. respondWeather w (apiClient_url a (BASE_URL @ ''/weather'') (coordParams la lo))
             = Success p \<and> transformWeatherData e p = Inr cur)"
  by (auto simp: currentStep_def split: response.splits sum.splits)

lemma forecastStep_Some:
  "forecastStep a e w la lo = Some fc \<longleftrightarrow>
     (\<exists>p. respondForecast w (apiClient_url a (BASE_URL @ ''/forecast'') (coordParams la lo))
             = Success p \<and> transformForecastData e p = Inr fc)"
  by (auto simp: forecastStep_def split: response.splits sum.splits)

text \<open>
  C1 (as amended).  With a key and usable coordinates the hook sends both requests, the
  current-weather request first, and merges what the two services return.  A service step
  fails when its request fails or when its transformer throws on the payload, and a failed
  step gives the mock dataset.  So: current step succeeds and forecast step fails, the real
  current block and location with the mock hourly and daily series; forecast step succeeds
  and current step fails, the mock dataset with the real hourly and daily series in place
  of its own; both fail, the mock dataset; both succeed, the real current block and
  location with the real series.
\<close>

theorem fetch_partial_failure_merges:
  assumes rc: "resolveCoords a e w loc = (c, reqs0)" and us: "usable a c = Some (la, lo)"
  shows "fst (fetchWeatherData a e w loc) =
           (case (currentStep a e w la lo, forecastStep a e w la lo) of
              (Some cur, None) \<Rightarrow> cur \<lparr> hourly := hourly (mock a), daily := daily (mock a) \<rparr>
            | (None, Some fc) \<Rightarrow> (mock a) \<lparr> hourly := hourly fc, daily := daily fc \<rparr>
            | (None, None) \<Rightarrow> mock a
            | (Some cur, Some fc) \<Rightarrow> cur \<lparr> hourly := hourly fc, daily := daily fc \<rparr>)
     \<and> snd (fetchWeatherData a e w loc)
         = reqs0 @ [apiClient_url a (BASE_URL @ ''/weather'') (coordParams la lo),
                    apiClient_url a (BASE_URL @ ''/forecast'') (coordParams la lo)]
     \<and> (currentStep a e w la lo = None \<longleftrightarrow>
           (\<exists>msg st. respondWeather w (apiClient_url a (BASE_URL @ ''/weather'') (coordParams la lo))
                       = Failure msg st)
           \<or> (\<exists>p err. respondWeather w (apiClient_url a (BASE_URL @ ''/weather'') (coordParams la lo))
                         = Success p \<and> transformWeatherData e p = Inl err))
     \<and> (forecastStep a e w la lo = None \<longleftrightarrow>
           (\<exists>msg st. respondForecast w (apiClient_url a (BASE_URL @ ''/forecast'') (coordParams la lo))
                       = Failure msg st)
           \<or> (\<exists>p err. respondForecast w (apiClient_url a (BASE_URL @ ''/forecast'') (coordParams la lo))
                         = Success p \<and> transformForecastData e p = Inl err))
     \<and> (\<forall>cur. currentStep a e w la lo = Some cur \<longleftrightarrow>
           (\<exists>p. respondWeather w (apiClient_url a (BASE_URL @ ''/weather'') (coordParams la lo))
                   = Success p \<and> transformWeatherData e p = Inr cur))
     \<and> (\<forall>fc. forecastStep a e w la lo = Some fc \<longleftrightarrow>
           (\<exists>p. respondForecast w (apiClient_url a (BASE_URL @ ''/forecast'') (coordParams la lo))
                   = Success p \<and> transformForecastData e p = Inr fc))"
proof -
  note f = fetchWeatherData_usable [OF rc us]
  have data: "fst (fetchWeatherData a e w loc) =
           (case (currentStep a e w la lo, forecastStep a e w la lo) of
              (Some cur, None) \<Rightarrow> cur \<lparr> hourly := hourly (mock a), daily := daily (mock a) \<rparr>
            | (None, Some fc) \<Rightarrow> (mock a) \<lparr> hourly := hourly fc, daily := daily fc \<rparr>
            | (None, None) \<Rightarrow> mock a
            | (Some cur, Some fc) \<Rightarrow> cur \<lparr> hourly := hourly fc, daily := daily fc \<rparr>)"
    by (simp add: f getCurrentWeather_step getForecast_step split: option.splits)
  have reqs: "snd (fetchWeatherData a e w loc)
         = reqs0 @ [apiClient_url a (BASE_URL @ ''/weather'') (coordParams la lo),
                    apiClient_url a (BASE_URL @ ''/forecast'') (coordParams la lo)]"
    by (simp add: f)
  have cs: "\<forall>cur. currentStep a e w la lo = Some cur \<longleftrightarrow>
           (\<exists>p. respondWeather w (apiClient_url a (BASE_URL @ ''/weather'') (coordParams la lo))
                   = Success p \<and> transformWeatherData e p = Inr cur)"
    using currentStep_Some by blast
  have fs: "\<forall>fc. forecastStep a e w la lo = Some fc \<longleftrightarrow>
           (\<exists>p. respondForecast w (apiClient_url a (BASE_URL @ ''/forecast'') (coordParams la lo))
                   = Success p \<and> transformForecastData e p = Inr fc)"
    using forecastStep_Some by blast
  show ?thesis
    by (intro conjI) (fact data reqs currentStep_None forecastStep_None cs fs)+
qed

lemmas number_defs =
  Number_def roundMV_def unsignedMV_def trim_def isDigit_def isSpace_def decimal_def digitVal_def

lemma greenwich_pattern: "regex_test coordPattern ''51.5,0.25''"
  by (simp add: coordPattern_def signedDecimal_def Opt_def Plus_def isDigit_def isSpace_def)

lemma greenwich_numbers:
  "Number ''51.5'' = Num 51.5" "Number ''0.25'' = Num 0.25"
proof -
  have "Number ''51.5'' = binary64 51.5"
    by (simp add: number_defs)
  then show "Number ''51.5'' = Num 51.5"
    by (simp only: binary64_greenwich_lat)
  have "Number ''0.25'' = binary64 0.25"
    by (simp add: number_defs)
  then show "Number ''0.25'' = Num 0.25"
    by (simp only: binary64_greenwich_lon)
qed

lemma greenwich_resolve:
  "resolveCoords a e w (Some ''51.5,0.25'')
     = (Some \<lparr> lat = Some (Num 51.5), lon = Some (Num 0.25) \<rparr>, [])"
proof -
  have "split_on CHR '','' ''51.5,0.25'' = [''51.5'', ''0.25'']"
    by simp
  then have "map Number (split_on CHR '','' ''51.5,0.25'') = [Num 51.5, Num 0.25]"
    by (simp only: list.map greenwich_numbers)
  with greenwich_pattern show ?thesis
    by (simp add: resolveCoords_def parseLocation_def js_index_def)
qed

lemma greenwich_usable:
  "usable (sample_app ''KEY'') (Some \<lparr> lat = Some (Num 51.5), lon = Some (Num 0.25) \<rparr>)
     = Some (Num 51.5, Num 0.25)"
  by (simp add: usable_def truthy_def isAPIConfigured_def sample_app_def load_def)

lemma sample_weather_transformed:
  "transformWeatherData sample_env (sample_weather ''01d'') =
     Inr \<lparr> current =
             \<lparr> c_temperature = 21, c_condition = ''Weather'', c_description = ''as reported'',
               c_icon = Tag Sunny, c_feelsLike = 20, c_humidity = 60, c_windSpeed = 4,
               c_windDirection = Some ''S'', c_pressure = 1015, c_visibility = 8,
               c_uvIndex = 0, c_sunrise = ''AM'', c_sunset = ''PM'', c_dewPoint = 0,
               c_timestamp = Some 43200000 \<rparr>,
           hourly = [], daily = [],
           location =
             Some \<lparr> loc_name = ''Greenwich'', loc_country = Some ''GB'', loc_region = None,
                    loc_lat = Some 51.5, loc_lon = Some 0.25, loc_timezone = None \<rparr>,
           lastUpdated = None \<rparr>"
  by (simp add: transformWeatherData_def icon_defs sample_defs Math_round_def truthy_or_def
      visibilityOf_def getWindDirection_def windIndex_def js_rem_def js_index_def directions_def)

lemma forecast_down_steps:
  "currentStep (sample_app ''KEY'') sample_env forecast_down (Num 51.5) (Num 0.25)
     = Some (projr (transformWeatherData sample_env (sample_weather ''01d'')))"
  "forecastStep (sample_app ''KEY'') sample_env forecast_down (Num 51.5) (Num 0.25) = None"
  by (simp_all add: currentStep_def forecastStep_def forecast_down_def sample_weather_transformed)

theorem fetch_partial_failure_merges_witness:
  "resolveCoords (sample_app ''KEY'') sample_env forecast_down (Some ''51.5,0.25'')
     = (Some \<lparr> lat = Some (Num 51.5), lon = Some (Num 0.25) \<rparr>, [])
   \<and> usable (sample_app ''KEY'') (Some \<lparr> lat = Some (Num 51.5), lon = Some (Num 0.25) \<rparr>)
       = Some (Num 51.5, Num 0.25)
   \<and> forecastStep (sample_app ''KEY'') sample_env forecast_down (Num 51.5) (Num 0.25) = None
   \<and> (let r = fst (fetchWeatherData (sample_app ''KEY'') sample_env forecast_down (Some ''51.5,0.25''));
          m = mock (sample_app ''KEY'')
      in c_temperature (current r) = 21 \<and> c_icon (current r) = Tag Sunny
         \<and> hourly r = hourly m \<and> daily r = daily m)"
proof -
  let ?a = "sample_app ''KEY''"
  note th = fetch_partial_failure_merges
    [OF greenwich_resolve [of ?a sample_env forecast_down] greenwich_usable]
  have "fst (fetchWeatherData ?a sample_env forecast_down (Some ''51.5,0.25''))
          = (projr (transformWeatherData sample_env (sample_weather ''01d'')))
              \<lparr> hourly := hourly (mock ?a), daily := daily (mock ?a) \<rparr>"
    using th [THEN conjunct1] unfolding forecast_down_steps by simp
  then show ?thesis
    using greenwich_resolve greenwich_usable forecast_down_steps(2)
    by (simp add: sample_weather_transformed Let_def)
qed

text \<open>
  C1 as stated fails: with the current weather served and the forecast endpoint answering
  500, the result is not the mock dataset: its current block is the real one (21 degrees,
  the mock has 68) next to the mock hourly and daily series.
\<close>

theorem fetch_partial_failure_counterexample:
  "respondWeather forecast_down
      (apiClient_url (sample_app ''KEY'') (BASE_URL @ ''/weather'') (coordParams (Num 51.5) (Num 0.25)))
     = Success (sample_weather ''01d'')
   \<and> respondForecast forecast_down
      (apiClient_url (sample_app ''KEY'') (BASE_URL @ ''/forecast'') (coordParams (Num 51.5) (Num 0.25)))
     = Failure ''HTTP 500: Internal Server Error'' (Some 500)
   \<and> fst (fetchWeatherData (sample_app ''KEY'') sample_env forecast_down (Some ''51.5,0.25''))
       \<noteq> mock (sample_app ''KEY'')
   \<and> c_temperature (current
        (fst (fetchWeatherData (sample_app ''KEY'') sample_env forecast_down (Some ''51.5,0.25''))))
       = 21
   \<and> c_temperature (current (mock (sample_app ''KEY''))) = 68
   \<and> hourly (fst (fetchWeatherData (sample_app ''KEY'') sample_env forecast_down (Some ''51.5,0.25'')))
       = hourly (mock (sample_app ''KEY''))
   \<and> daily (fst (fetchWeatherData (sample_app ''KEY'') sample_env forecast_down (Some ''51.5,0.25'')))
       = daily (mock (sample_app ''KEY''))"
proof -
  let ?a = "sample_app ''KEY''"
  let ?r = "fst (fetchWeatherData ?a sample_env forecast_down (Some ''51.5,0.25''))"
  have w: "respondWeather forecast_down
             (apiClient_url ?a (BASE_URL @ ''/weather'') (coordParams (Num 51.5) (Num 0.25)))
           = Success (sample_weather ''01d'')"
    by (simp add: forecast_down_def)
  have f: "respondForecast forecast_down
             (apiClient_url ?a (BASE_URL @ ''/forecast'') (coordParams (Num 51.5) (Num 0.25)))
           = Failure ''HTTP 500: Internal Server Error'' (Some 500)"
    by (simp add: forecast_down_def)
  have r: "?r = (projr (transformWeatherData sample_env (sample_weather ''01d'')))
              \<lparr> hourly := hourly (mock ?a), daily := daily (mock ?a) \<rparr>"
    using getCurrentWeather_success [OF w sample_weather_transformed]
      getForecast_failure [OF f, of sample_env]
    by (simp add: fetchWeatherData_usable [OF greenwich_resolve greenwich_usable]
        sample_weather_transformed)
  have t: "c_temperature (current ?r) = 21"
    by (simp add: r sample_weather_transformed)
  have m: "c_temperature (current (mock ?a)) = 68"
    by (simp add: sample_app_def load_def mockWeatherData_def)
  from t m have "?r \<noteq> mock ?a" by auto
  moreover have "hourly ?r = hourly (mock ?a)" "daily ?r = daily (mock ?a)"
    by (simp_all add: r)
  ultimately show ?thesis
    using w f t m by simp
qed

subsection \<open>One mock dataset\<close>

text \<open>
  C10.  The mock dataset is built when the modules are loaded, from the clock and the random
  numbers of that moment, and never again: \<open>getMockWeatherData\<close>, either service after a
  failed request and the hook's own fallback branch (no key, or no usable coordinates) all
  give that one value, whatever the platform, the network and the location of the call.
  Two fetches that fall back therefore give equal data, the randomised hourly series
  included.
\<close>

theorem mock_built_once:
  assumes a: "a = load key hourAt rnd"
  shows "getMockWeatherData a = mockWeatherData hourAt rnd
     \<and> (\<forall>e w loc. usable a (fst (resolveCoords a e w loc)) = None
           \<longrightarrow> fst (fetchWeatherData a e w loc) = mockWeatherData hourAt rnd)
     \<and> (\<forall>e w loc. \<not> isAPIConfigured a
           \<longrightarrow> fst (fetchWeatherData a e w loc) = mockWeatherData hourAt rnd)
     \<and> (\<forall>e w la lo msg st.
           respondWeather w (apiClient_url a (BASE_URL @ ''/weather'') (coordParams la lo))
             = Failure msg st
           \<longrightarrow> fst (getCurrentWeather a e w la lo) = mockWeatherData hourAt rnd)
     \<and> (\<forall>e w la lo msg st.
           respondForecast w (apiClient_url a (BASE_URL @ ''/forecast'') (coordParams la lo))
             = Failure msg st
           \<longrightarrow> fst (getForecast a e w la lo) = mockWeatherData hourAt rnd)
     \<and> (\<forall>e1 w1 loc1 e2 w2 loc2.
           usable a (fst (resolveCoords a e1 w1 loc1)) = None
           \<and> usable a (fst (resolveCoords a e2 w2 loc2)) = None
           \<longrightarrow> fst (fetchWeatherData a e1 w1 loc1) = fst (fetchWeatherData a e2 w2 loc2)
               \<and> hourly (fst (fetchWeatherData a e1 w1 loc1))
                   = generate24HourForecast hourAt rnd)"
proof -
  have m: "mock a = mockWeatherData hourAt rnd"
    by (simp add: a load_def)
  have fb: "fst (fetchWeatherData a e w loc) = mockWeatherData hourAt rnd"
    if "usable a (fst (resolveCoords a e w loc)) = None" for e w loc
  proof -
    obtain c reqs0 where rc: "resolveCoords a e w loc = (c, reqs0)"
      by (cases "resolveCoords a e w loc")
    with that have "usable a c = None" by simp
    from fetchWeatherData_unusable [OF rc this] m show ?thesis by simp
  qed
  have nk: "fst (fetchWeatherData a e w loc) = mockWeatherData hourAt rnd"
    if "\<not> isAPIConfigured a" for e w loc
    using fb [of e w loc] usable_unconfigured [OF that] by simp
  have cw: "fst (getCurrentWeather a e w la lo) = mockWeatherData hourAt rnd"
    if "respondWeather w (apiClient_url a (BASE_URL @ ''/weather'') (coordParams la lo))
             = Failure msg st" for e w la lo msg st
    using getCurrentWeather_failure [OF that] m by simp
  have fc: "fst (getForecast a e w la lo) = mockWeatherData hourAt rnd"
    if "respondForecast w (apiClient_url a (BASE_URL @ ''/forecast'') (coordParams la lo))
             = Failure msg st" for e w la lo msg st
    using getForecast_failure [OF that] m by simp
  have hr: "hourly (mockWeatherData hourAt rnd) = generate24HourForecast hourAt rnd"
    by (simp add: mockWeatherData_def)
  have g: "getMockWeatherData a = mockWeatherData hourAt rnd"
    by (simp add: getMockWeatherData_def m)
  have c2: "\<forall>e w loc. usable a (fst (resolveCoords a e w loc)) = None
           \<longrightarrow> fst (fetchWeatherData a e w loc) = mockWeatherData hourAt rnd"
    using fb by blast
  have c3: "\<forall>e w loc. \<not> isAPIConfigured a
           \<longrightarrow> fst (fetchWeatherData a e w loc) = mockWeatherData hourAt rnd"
    using nk by blast
  have c4: "\<forall>e w la lo msg st.
           respondWeather w (apiClient_url a (BASE_URL @ ''/weather'') (coordParams la lo))
             = Failure msg st
           \<longrightarrow> fst (getCurrentWeather a e w la lo) = mockWeatherData hourAt rnd"
    using cw by blast
  have c5: "\<forall>e w la lo msg st.
           respondForecast w (apiClient_url a (BASE_URL @ ''/forecast'') (coordParams la lo))
             = Failure msg st
           \<longrightarrow> fst (getForecast a e w la lo) = mockWeatherData hourAt rnd"
    using fc by blast
  have c6: "\<forall>e1 w1 loc1 e2 w2 loc2.
           usable a (fst (resolveCoords a e1 w1 loc1)) = None
           \<and> usable a (fst (resolveCoords a e2 w2 loc2)) = None
           \<longrightarrow> fst (fetchWeatherData a e1 w1 loc1) = fst (fetchWeatherData a e2 w2 loc2)
               \<and> hourly (fst (fetchWeatherData a e1 w1 loc1))
                   = generate24HourForecast hourAt rnd"
    using fb hr by simp
  show ?thesis
    by (intro conjI) (fact g c2 c3 c4 c5 c6)+
qed

theorem mock_built_once_witness:
  "sample_app [] = load [] sample_hourAt sample_rnd
   \<and> usable (sample_app []) (fst (resolveCoords (sample_app []) sample_env offline (Some ''London''))) = None
   \<and> usable (sample_app [])
        (fst (resolveCoords (sample_app []) (sample_env \<lparr> now := 86400000 \<rparr>) forecast_down None)) = None
   \<and> fst (fetchWeatherData (sample_app []) sample_env offline (Some ''London''))
       = fst (fetchWeatherData (sample_app []) (sample_env \<lparr> now := 86400000 \<rparr>) forecast_down None)
   \<and> fst (fetchWeatherData (sample_app []) sample_env offline (Some ''London''))
       = mockWeatherData sample_hourAt sample_rnd"
proof -
  have a: "sample_app [] = load [] sample_hourAt sample_rnd"
    by (simp add: sample_app_def)
  have u: "usable (sample_app []) c = None" for c
    by (rule usable_unconfigured [OF no_key])
  from mock_built_once [OF a] u a show ?thesis
    by simp
qed



subsection \<open>The coordinate pattern\<close>

lemma nullable_lang: "nullable r \<Longrightarrow> [] \<in> lang r"
  by (induction r) (auto intro: star_nil)

lemma lang_SeqI: "u \<in> lang r \<Longrightarrow> v \<in> lang s \<Longrightarrow> u @ v \<in> lang (Seq r s)"
  by auto

lemma deriv_lang: "w \<in> lang (deriv x r) \<Longrightarrow> x # w \<in> lang r"
proof (induction r arbitrary: w)
  case (Seq r s)
  show ?case
  proof (cases "nullable r")
    case True
    with Seq.prems consider
      (left) u v where "w = u @ v" "u \<in> lang (deriv x r)" "v \<in> lang s"
      | (right) "w \<in> lang (deriv x s)"
      by auto
    then show ?thesis
    proof cases
      case left
      have "(x # u) @ v \<in> lang (Seq r s)"
        using Seq.IH(1) [OF left(2)] left(3) by (rule lang_SeqI)
      moreover have "x # w = (x # u) @ v"
        using left(1) by simp
      ultimately show ?thesis by (simp only:)
    next
      case right
      have "[] @ (x # w) \<in> lang (Seq r s)"
        using nullable_lang [OF True] Seq.IH(2) [OF right] by (rule lang_SeqI)
      moreover have "x # w = [] @ (x # w)"
        by simp
      ultimately show ?thesis by (simp only:)
    qed
  next
    case False
    with Seq.prems obtain u v where uv: "w = u @ v" "u \<in> lang (deriv x r)" "v \<in> lang s"
      by auto
    have "(x # u) @ v \<in> lang (Seq r s)"
      using Seq.IH(1) [OF uv(2)] uv(3) by (rule lang_SeqI)
    moreover have "x # w = (x # u) @ v"
      using uv(1) by simp
    ultimately show ?thesis by (simp only:)
  qed
next
  case (Star r)
  from Star.prems obtain u v where uv: "w = u @ v" "u \<in> lang (deriv x r)" "v \<in> star (lang r)"
    by auto
  from Star.IH [OF uv(2)] uv(3) have "(x # u) @ v \<in> star (lang r)"
    by (rule star_app)
  with uv(1) show ?case by simp
qed (auto split: if_splits)

lemma regex_test_lang: "regex_test r s \<Longrightarrow> s \<in> lang r"
  by (induction s arbitrary: r) (auto intro: nullable_lang deriv_lang)

lemma star_singletons: "u \<in> star {[x] | x. P x} \<Longrightarrow> list_all P u"
  by (induction rule: star.induct) auto

lemma lang_Plus_AnyDigit: "u \<in> lang (Plus AnyDigit) \<Longrightarrow> u \<noteq> [] \<and> list_all isDigit u"
  by (auto simp: Plus_def dest: star_singletons)

lemma lang_Star_AnySpace: "u \<in> lang (Star AnySpace) \<Longrightarrow> list_all isSpace u"
  by (auto dest: star_singletons)

lemma lang_signedDecimal:
  assumes "s \<in> lang signedDecimal"
  shows "\<exists>neg ip fp. s = numeral_text neg ip fp \<and> numeral_ok ip fp"
proof -
  from assms obtain sg ip fr where s: "s = sg @ ip @ fr"
    and sg: "sg \<in> lang (Opt (Lit CHR ''-''))"
    and ip: "ip \<in> lang (Plus AnyDigit)"
    and fr: "fr \<in> lang (Opt (Seq (Lit CHR ''.'') (Plus AnyDigit)))"
    by (auto simp: signedDecimal_def)
  from sg have sg': "sg = (if sg \<noteq> [] then ''-'' else [])"
    by (auto simp: Opt_def)
  from fr consider (none) "fr = []" | (some) f where "fr = CHR ''.'' # f" "f \<in> lang (Plus AnyDigit)"
    by (auto simp: Opt_def)
  then show ?thesis
  proof cases
    case none
    have "s = numeral_text (sg \<noteq> []) ip None"
      using s sg' none by (simp add: numeral_text_def)
    moreover have "numeral_ok ip None"
      using lang_Plus_AnyDigit [OF ip] by (simp add: numeral_ok_def)
    ultimately show ?thesis by blast
  next
    case some
    have "s = numeral_text (sg \<noteq> []) ip (Some f)"
      using s sg' some(1) by (simp add: numeral_text_def)
    moreover have "numeral_ok ip (Some f)"
      using lang_Plus_AnyDigit [OF ip] lang_Plus_AnyDigit [OF some(2)] by (simp add: numeral_ok_def)
    ultimately show ?thesis by blast
  qed
qed

lemma lang_coordPattern:
  assumes "s \<in> lang coordPattern"
  shows "\<exists>neg1 ip1 fp1 ws1 ws2 neg2 ip2 fp2.
           s = numeral_text neg1 ip1 fp1 @ ws1 @ CHR '','' # ws2 @ numeral_text neg2 ip2 fp2
           \<and> numeral_ok ip1 fp1 \<and> list_all isSpace ws1
           \<and> list_all isSpace ws2 \<and> numeral_ok ip2 fp2"
proof -
  from assms obtain n1 ws1 ws2 n2 where s: "s = n1 @ ws1 @ CHR '','' # ws2 @ n2"
    and n1: "n1 \<in> lang signedDecimal" and w1: "ws1 \<in> lang (Star AnySpace)"
    and w2: "ws2 \<in> lang (Star AnySpace)" and n2: "n2 \<in> lang signedDecimal"
    by (auto simp: coordPattern_def)
  from lang_signedDecimal [OF n1] lang_signedDecimal [OF n2]
    lang_Star_AnySpace [OF w1] lang_Star_AnySpace [OF w2] s
  show ?thesis by blast
qed


text \<open>
  The matcher decides exactly the language of the pattern, and the pattern accepts every
  string of the shape found above.
\<close>

lemma lang_nullable: "[] \<in> lang r \<Longrightarrow> nullable r"
  by (induction r) auto

lemma star_cons:
  assumes "s \<in> star A" and "s = x # w"
  shows "\<exists>u v. w = u @ v \<and> x # u \<in> A \<and> v \<in> star A"
  using assms
proof (induction rule: star.induct)
  case star_nil
  then show ?case by simp
next
  case (star_app u0 v0)
  show ?case
  proof (cases u0)
    case Nil
    with star_app.prems have "v0 = x # w" by simp
    then show ?thesis by (rule star_app.IH)
  next
    case (Cons y u')
    with star_app.prems have "y = x" and "w = u' @ v0" by simp_all
    with Cons star_app.hyps show ?thesis by blast
  qed
qed

lemma lang_deriv: "x # w \<in> lang r \<Longrightarrow> w \<in> lang (deriv x r)"
proof (induction r arbitrary: w)
  case (Seq r s)
  from Seq.prems obtain u v where uv: "x # w = u @ v" "u \<in> lang r" "v \<in> lang s"
    by auto
  show ?case
  proof (cases u)
    case Nil
    with uv have "nullable r" and "x # w \<in> lang s"
      by (auto intro: lang_nullable)
    with Seq.IH(2) show ?thesis by simp
  next
    case (Cons y u')
    with uv(1) have "y = x" and w: "w = u' @ v" by simp_all
    with Cons uv(2) Seq.IH(1) have "u' \<in> lang (deriv x r)" by simp
    then have "u' @ v \<in> lang (Seq (deriv x r) s)"
      using uv(3) by (rule lang_SeqI)
    then show ?thesis
      by (simp only: w deriv.simps lang.simps split: if_splits) simp
  qed
next
  case (Star r)
  from Star.prems have "x # w \<in> star (lang r)" by simp
  from star_cons [OF this refl] obtain u v where
    uv: "w = u @ v" "x # u \<in> lang r" "v \<in> star (lang r)"
    by blast
  from Star.IH [OF uv(2)] uv(3) have "u @ v \<in> lang (Seq (deriv x r) (Star r))"
    by (intro lang_SeqI) simp_all
  with uv(1) show ?case by simp
qed auto

lemma lang_regex_test: "s \<in> lang r \<Longrightarrow> regex_test r s"
  by (induction s arbitrary: r) (auto intro: lang_nullable lang_deriv)

lemma regex_test_iff: "regex_test r s \<longleftrightarrow> s \<in> lang r"
  using regex_test_lang lang_regex_test by blast

lemma singletons_star: "list_all P u \<Longrightarrow> u \<in> star {[x] | x. P x}"
proof (induction u)
  case Nil
  show ?case by (rule star_nil)
next
  case (Cons x u)
  then have "[x] \<in> {[x] | x. P x}" and "u \<in> star {[x] | x. P x}" by auto
  then have "[x] @ u \<in> star {[x] | x. P x}" by (rule star_app)
  then show ?case by simp
qed

lemma digits_lang: "ds \<noteq> [] \<Longrightarrow> list_all isDigit ds \<Longrightarrow> ds \<in> lang (Plus AnyDigit)"
proof -
  assume "ds \<noteq> []" and all: "list_all isDigit ds"
  then obtain x ds' where ds: "ds = x # ds'" by (cases ds) auto
  with all have "[x] \<in> lang AnyDigit" and "ds' \<in> lang (Star AnyDigit)"
    by (auto intro: singletons_star)
  then have "[x] @ ds' \<in> lang (Seq AnyDigit (Star AnyDigit))" by (rule lang_SeqI)
  with ds show ?thesis by (simp add: Plus_def)
qed

lemma numeral_text_lang:
  assumes "numeral_ok ip fp"
  shows "numeral_text neg ip fp \<in> lang signedDecimal"
proof -
  have sg: "(if neg then ''-'' else []) \<in> lang (Opt (Lit CHR ''-''))"
    by (simp add: Opt_def)
  have ip: "ip \<in> lang (Plus AnyDigit)"
    using assms by (intro digits_lang) (simp_all add: numeral_ok_def)
  have fr: "(case fp of None \<Rightarrow> [] | Some f \<Rightarrow> CHR ''.'' # f)
              \<in> lang (Opt (Seq (Lit CHR ''.'') (Plus AnyDigit)))"
  proof (cases fp)
    case None
    then show ?thesis by (simp add: Opt_def)
  next
    case (Some f)
    with assms have "f \<in> lang (Plus AnyDigit)"
      by (intro digits_lang) (simp_all add: numeral_ok_def)
    then have "[CHR ''.''] @ f \<in> lang (Seq (Lit CHR ''.'') (Plus AnyDigit))"
      by (intro lang_SeqI) simp_all
    with Some show ?thesis by (simp add: Opt_def)
  qed
  from ip fr have "ip @ (case fp of None \<Rightarrow> [] | Some f \<Rightarrow> CHR ''.'' # f)
      \<in> lang (Seq (Plus AnyDigit) (Opt (Seq (Lit CHR ''.'') (Plus AnyDigit))))"
    by (rule lang_SeqI)
  with sg have "(if neg then ''-'' else []) @ ip @ (case fp of None \<Rightarrow> [] | Some f \<Rightarrow> CHR ''.'' # f)
      \<in> lang signedDecimal"
    unfolding signedDecimal_def by (rule lang_SeqI)
  then show ?thesis by (simp add: numeral_text_def)
qed

lemma coordPattern_accepts:
  assumes "numeral_ok ip1 fp1" and "list_all isSpace ws1"
    and "list_all isSpace ws2" and "numeral_ok ip2 fp2"
  shows "regex_test coordPattern
           (numeral_text neg1 ip1 fp1 @ ws1 @ CHR '','' # ws2 @ numeral_text neg2 ip2 fp2)"
proof -
  have w1: "ws1 \<in> lang (Star AnySpace)" and w2: "ws2 \<in> lang (Star AnySpace)"
    using assms(2,3) by (auto intro: singletons_star)
  have comma: "[CHR '',''] \<in> lang (Lit CHR '','')"
    by simp
  have "ws2 @ numeral_text neg2 ip2 fp2 \<in> lang (Seq (Star AnySpace) signedDecimal)"
    using w2 numeral_text_lang [OF assms(4)] by (rule lang_SeqI)
  with comma have "[CHR '',''] @ ws2 @ numeral_text neg2 ip2 fp2
      \<in> lang (Seq (Lit CHR '','') (Seq (Star AnySpace) signedDecimal))"
    by (rule lang_SeqI)
  with w1 have "ws1 @ [CHR '',''] @ ws2 @ numeral_text neg2 ip2 fp2
      \<in> lang (Seq (Star AnySpace) (Seq (Lit CHR '','') (Seq (Star AnySpace) signedDecimal)))"
    by (rule lang_SeqI)
  with numeral_text_lang [OF assms(1)]
  have "numeral_text neg1 ip1 fp1 @ ws1 @ [CHR '',''] @ ws2 @ numeral_text neg2 ip2 fp2
      \<in> lang coordPattern"
    unfolding coordPattern_def by (rule lang_SeqI)
  then show ?thesis
    by (simp add: regex_test_iff)
qed

subsection \<open>Splitting and converting a coordinate pair\<close>

lemma digit_chars:
  assumes "isDigit x"
  shows "x \<noteq> CHR '',''" "x \<noteq> CHR ''-''" "x \<noteq> CHR ''+''" "x \<noteq> CHR ''.''" "\<not> isSpace x"
  using assms by (auto simp: isDigit_def isSpace_def)

lemma space_chars:
  assumes "isSpace x"
  shows "x \<noteq> CHR '',''"
  using assms by (auto simp: isSpace_def)

lemma sign_chars:
  "\<not> isSpace CHR ''-''" "\<not> isDigit CHR ''.''" "\<not> isDigit CHR ''-''"
  by (simp_all add: isDigit_def isSpace_def)

lemma numeral_text_no_comma:
  assumes "numeral_ok ip fp"
  shows "CHR '','' \<notin> set (numeral_text neg ip fp)"
proof -
  have d: "CHR '','' \<notin> set ds" if "list_all isDigit ds" for ds
    using that digit_chars(1) by (auto simp: list_all_iff)
  from assms show ?thesis
    by (auto simp: numeral_text_def numeral_ok_def d split: option.splits)
qed

lemma spaces_no_comma: "list_all isSpace ws \<Longrightarrow> CHR '','' \<notin> set ws"
  using space_chars by (auto simp: list_all_iff)

lemma split_on_none: "c \<notin> set u \<Longrightarrow> split_on c u = [u]"
  by (induction u) auto

lemma split_on_first: "c \<notin> set u \<Longrightarrow> split_on c (u @ c # v) = u # split_on c v"
  by (induction u) auto

lemma trim_core:
  assumes a: "list_all isSpace a" and b: "list_all isSpace b"
    and n: "n \<noteq> []" "\<not> isSpace (hd n)" "\<not> isSpace (last n)"
  shows "trim (a @ n @ b) = n"
proof -
  have front: "dropWhile isSpace (a @ n @ b) = n @ b"
  proof -
    have "dropWhile isSpace (a @ n @ b) = dropWhile isSpace (n @ b)"
      using a by (intro dropWhile_append2) (simp add: list_all_iff)
    also have "\<dots> = n @ b"
      using n(1,2) by (cases n) simp_all
    finally show ?thesis .
  qed
  have rear: "dropWhile isSpace (rev b @ rev n) = rev n"
  proof -
    have "dropWhile isSpace (rev b @ rev n) = dropWhile isSpace (rev n)"
      using b by (intro dropWhile_append2) (simp add: list_all_iff)
    also have "\<dots> = rev n"
      using n(1,3) by (cases n rule: rev_cases) simp_all
    finally show ?thesis .
  qed
  show ?thesis
    by (simp add: trim_def front rear)
qed

lemma numeral_text_ends:
  assumes "numeral_ok ip fp"
  shows "numeral_text neg ip fp \<noteq> []"
    and "\<not> isSpace (hd (numeral_text neg ip fp))"
    and "\<not> isSpace (last (numeral_text neg ip fp))"
proof -
  from assms obtain x ip' where ip: "ip = x # ip'" and x: "isDigit x"
    by (cases ip) (auto simp: numeral_ok_def)
  show "numeral_text neg ip fp \<noteq> []"
    by (simp add: numeral_text_def ip)
  show "\<not> isSpace (hd (numeral_text neg ip fp))"
    using digit_chars(5) [OF x] sign_chars(1) by (simp add: numeral_text_def ip)
  have lastd: "isDigit (last ds)" if "ds \<noteq> []" "list_all isDigit ds" for ds
    using that by (simp add: list_all_iff)
  have "isDigit (last (numeral_text neg ip fp))"
  proof (cases fp)
    case None
    with assms show ?thesis
      by (simp add: numeral_text_def numeral_ok_def lastd)
  next
    case (Some f)
    with assms show ?thesis
      by (simp add: numeral_text_def numeral_ok_def lastd)
  qed
  then show "\<not> isSpace (last (numeral_text neg ip fp))"
    by (rule digit_chars(5))
qed

lemma unsignedMV_numeral:
  assumes "numeral_ok ip fp"
  shows "unsignedMV (numeral_text False ip fp) = Some (numeral_value False ip fp)"
proof -
  from assms have ip: "ip \<noteq> []" "\<And>x. x \<in> set ip \<Longrightarrow> isDigit x"
    by (auto simp: numeral_ok_def list_all_iff)
  show ?thesis
  proof (cases fp)
    case None
    have tk: "takeWhile isDigit ip = ip" and dk: "dropWhile isDigit ip = []"
      using ip(2) by simp_all
    from None ip(1) show ?thesis
      by (simp add: unsignedMV_def numeral_text_def numeral_value_def Let_def tk dk)
  next
    case (Some f)
    with assms have f: "list_all isDigit f" by (simp add: numeral_ok_def)
    have t: "takeWhile isDigit (ip @ CHR ''.'' # f) = ip"
      using ip(2) sign_chars(2) by (simp add: takeWhile_append2)
    have d: "dropWhile isDigit (ip @ CHR ''.'' # f) = CHR ''.'' # f"
      using ip(2) sign_chars(2) by (simp add: dropWhile_append2)
    show ?thesis
      using Some f ip(1)
      by (simp add: unsignedMV_def numeral_text_def numeral_value_def t d Let_def)
  qed
qed

lemma Number_numeral:
  assumes ok: "numeral_ok ip fp" and a: "list_all isSpace a" and b: "list_all isSpace b"
  shows "Number (a @ numeral_text neg ip fp @ b) = binary64 (numeral_value neg ip fp)"
proof -
  have t: "trim (a @ numeral_text neg ip fp @ b) = numeral_text neg ip fp"
    using a b numeral_text_ends [OF ok] by (rule trim_core)
  from ok obtain x ip' where ip: "ip = x # ip'" and x: "isDigit x"
    by (cases ip) (auto simp: numeral_ok_def)
  note u = unsignedMV_numeral [OF ok]
  show ?thesis
  proof (cases neg)
    case True
    have tt: "trim (a @ numeral_text neg ip fp @ b) = CHR ''-'' # numeral_text False ip fp"
      using t True by (simp add: numeral_text_def)
    have "Number (a @ numeral_text neg ip fp @ b)
            = roundMV (map_option uminus (unsignedMV (numeral_text False ip fp)))"
      unfolding Number_def tt by simp
    also have "\<dots> = binary64 (numeral_value neg ip fp)"
      using True by (simp add: u roundMV_def numeral_value_def)
    finally show ?thesis .
  next
    case False
    define rest where "rest = ip' @ (case fp of None \<Rightarrow> [] | Some f \<Rightarrow> CHR ''.'' # f)"
    have nt: "numeral_text False ip fp = x # rest"
      by (simp add: numeral_text_def ip rest_def)
    have tt: "trim (a @ numeral_text neg ip fp @ b) = x # rest"
      using t False nt by simp
    have "Number (a @ numeral_text neg ip fp @ b) = roundMV (unsignedMV (x # rest))"
      unfolding Number_def tt using digit_chars(2,3) [OF x] by simp
    also have "\<dots> = binary64 (numeral_value neg ip fp)"
      using False u by (simp add: nt roundMV_def)
    finally show ?thesis .
  qed
qed

lemma parseLocation_shape:
  assumes ok1: "numeral_ok ip1 fp1" and w1: "list_all isSpace ws1"
    and w2: "list_all isSpace ws2" and ok2: "numeral_ok ip2 fp2"
  shows "parseLocation a e w
           (Some (numeral_text neg1 ip1 fp1 @ ws1 @ CHR '','' # ws2 @ numeral_text neg2 ip2 fp2))
         = (Some \<lparr> lat = Some (binary64 (numeral_value neg1 ip1 fp1)),
                   lon = Some (binary64 (numeral_value neg2 ip2 fp2)) \<rparr>, [])"
proof -
  let ?n1 = "numeral_text neg1 ip1 fp1" and ?n2 = "numeral_text neg2 ip2 fp2"
  let ?s = "?n1 @ ws1 @ CHR '','' # ws2 @ ?n2"
  have m: "regex_test coordPattern ?s"
    using assms by (rule coordPattern_accepts)
  have c1: "CHR '','' \<notin> set (?n1 @ ws1)"
    using numeral_text_no_comma [OF ok1] spaces_no_comma [OF w1] by simp
  have c2: "CHR '','' \<notin> set (ws2 @ ?n2)"
    using numeral_text_no_comma [OF ok2] spaces_no_comma [OF w2] by simp
  have "split_on CHR '','' ?s = (?n1 @ ws1) # split_on CHR '','' (ws2 @ ?n2)"
    using split_on_first [OF c1, of "ws2 @ ?n2"] by simp
  then have parts: "split_on CHR '','' ?s = [?n1 @ ws1, ws2 @ ?n2]"
    by (simp add: split_on_none [OF c2])
  have la: "Number (?n1 @ ws1) = binary64 (numeral_value neg1 ip1 fp1)"
    using Number_numeral [OF ok1, of "[]" ws1 neg1] w1 by simp
  have lo: "Number (ws2 @ ?n2) = binary64 (numeral_value neg2 ip2 fp2)"
    using Number_numeral [OF ok2 w2, of "[]" neg2] by simp
  have "?s \<noteq> []"
    by simp
  with m show ?thesis
    by (simp add: parseLocation_def parts la lo js_index_def del: append_assoc)
qed

text \<open>
  C5 (as amended).  A string that passes the coordinate pattern is two numerals (an optional
  minus sign, digits, an optional fraction) around a comma, with optional white space on
  either side of the comma.  \<open>parseLocation\<close> sends no request and answers with, as
  \<open>lat\<close> and \<open>lon\<close>, the Number values for the numbers the two numerals denote: each
  number rounded to the nearest binary64, an infinity when it is too large.
\<close>

theorem parseLocation_coordinates:
  assumes "regex_test coordPattern s"
  shows "\<exists>neg1 ip1 fp1 ws1 ws2 neg2 ip2 fp2.
           s = numeral_text neg1 ip1 fp1 @ ws1 @ CHR '','' # ws2 @ numeral_text neg2 ip2 fp2
           \<and> numeral_ok ip1 fp1 \<and> list_all isSpace ws1
           \<and> list_all isSpace ws2 \<and> numeral_ok ip2 fp2
           \<and> parseLocation a e w (Some s)
               = (Some \<lparr> lat = Some (binary64 (numeral_value neg1 ip1 fp1)),
                         lon = Some (binary64 (numeral_value neg2 ip2 fp2)) \<rparr>, [])"
proof -
  from assms have "s \<in> lang coordPattern"
    by (rule regex_test_lang)
  then obtain neg1 ip1 fp1 ws1 ws2 neg2 ip2 fp2 where
    s: "s = numeral_text neg1 ip1 fp1 @ ws1 @ CHR '','' # ws2 @ numeral_text neg2 ip2 fp2"
    and ok1: "numeral_ok ip1 fp1" and w1: "list_all isSpace ws1"
    and w2: "list_all isSpace ws2" and ok2: "numeral_ok ip2 fp2"
    using lang_coordPattern by blast
  have "parseLocation a e w (Some s)
               = (Some \<lparr> lat = Some (binary64 (numeral_value neg1 ip1 fp1)),
                         lon = Some (binary64 (numeral_value neg2 ip2 fp2)) \<rparr>, [])"
    unfolding s using ok1 w1 w2 ok2 by (rule parseLocation_shape)
  with s ok1 w1 w2 ok2 show ?thesis by blast
qed

lemma new_york_pattern: "regex_test coordPattern ''40.71,-74.01''"
  by (simp add: coordPattern_def signedDecimal_def Opt_def Plus_def isDigit_def isSpace_def)

lemma new_york_shape:
  "''40.71,-74.01'' = numeral_text False ''40'' (Some ''71'') @ [] @ CHR '','' # []
                        @ numeral_text True ''74'' (Some ''01'')"
  by (simp add: numeral_text_def)

lemma new_york_values:
  "numeral_value False ''40'' (Some ''71'') = 40.71"
  "numeral_value True ''74'' (Some ''01'') = - 74.01"
  by (simp_all add: numeral_value_def decimal_def digitVal_def)

theorem parseLocation_coordinates_witness:
  "regex_test coordPattern ''40.71,-74.01''
   \<and> ''40.71,-74.01'' = numeral_text False ''40'' (Some ''71'') @ [] @ CHR '','' # []
                             @ numeral_text True ''74'' (Some ''01'')
   \<and> numeral_value False ''40'' (Some ''71'') = 40.71
   \<and> numeral_value True ''74'' (Some ''01'') = - 74.01
   \<and> parseLocation (sample_app ''KEY'') sample_env offline (Some ''40.71,-74.01'')
       = (Some \<lparr> lat = Some (binary64 40.71), lon = Some (binary64 (- 74.01)) \<rparr>, [])
   \<and> parseLocation (sample_app ''KEY'') sample_env offline (Some ''51.5,0.25'')
       = (Some \<lparr> lat = Some (Num 51.5), lon = Some (Num 0.25) \<rparr>, [])"
proof -
  from parseLocation_coordinates [OF new_york_pattern, of "sample_app ''KEY''" sample_env offline]
  obtain la lo where
    p: "parseLocation (sample_app ''KEY'') sample_env offline (Some ''40.71,-74.01'')
          = (Some \<lparr> lat = Some la, lon = Some lo \<rparr>, [])"
    by blast
  have ok: "numeral_ok ''40'' (Some ''71'')" "numeral_ok ''74'' (Some ''01'')"
    by (simp_all add: numeral_ok_def isDigit_def)
  have "parseLocation (sample_app ''KEY'') sample_env offline
          (Some (numeral_text False ''40'' (Some ''71'') @ [] @ CHR '','' # []
                   @ numeral_text True ''74'' (Some ''01'')))
        = (Some \<lparr> lat = Some (binary64 (numeral_value False ''40'' (Some ''71''))),
                  lon = Some (binary64 (numeral_value True ''74'' (Some ''01''))) \<rparr>, [])"
    using ok(1) _ _ ok(2) by (rule parseLocation_shape) simp_all
  then have q: "parseLocation (sample_app ''KEY'') sample_env offline (Some ''40.71,-74.01'')
       = (Some \<lparr> lat = Some (binary64 40.71), lon = Some (binary64 (- 74.01)) \<rparr>, [])"
    by (simp only: new_york_shape [symmetric] new_york_values)
  with p have "la = binary64 40.71 \<and> lo = binary64 (- 74.01)"
    by simp
  have g: "parseLocation (sample_app ''KEY'') sample_env offline (Some ''51.5,0.25'')
       = (Some \<lparr> lat = Some (Num 51.5), lon = Some (Num 0.25) \<rparr>, [])"
    using greenwich_resolve [of "sample_app ''KEY''" sample_env offline]
    by (simp add: resolveCoords_def)
  show ?thesis
    by (intro conjI) (fact new_york_pattern new_york_shape new_york_values q g)+
qed

lemma decimal_snoc: "decimal (ds @ [c]) = 10 * decimal ds + digitVal c"
  by (simp add: decimal_def)

lemma decimal_nines: "decimal (replicate n CHR ''9'') + 1 = 10 ^ n"
proof (induction n)
  case 0
  show ?case by (simp add: decimal_def)
next
  case (Suc n)
  have "decimal (replicate (Suc n) CHR ''9'') = 10 * decimal (replicate n CHR ''9'') + 9"
    using decimal_snoc [of "replicate n CHR ''9''" "CHR ''9''"]
    by (simp add: replicate_append_same digitVal_def)
  with Suc.IH show ?case by simp
qed

lemma nines_value: "numeral_value False (replicate 400 CHR ''9'') None = 10 ^ 400 - 1"
proof -
  have "real (decimal (replicate 400 CHR ''9'')) + 1 = 10 ^ 400"
    using decimal_nines [of 400] by (metis of_nat_1 of_nat_add of_nat_numeral of_nat_power)
  then show ?thesis
    by (simp add: numeral_value_def)
qed

lemma nines_overflow: "binary64 (10 ^ 400 - 1) = PosInfinity"
  by (rule binary64_overflow) simp

text \<open>
  C5 as stated fails: a latitude of 400 nines passes the pattern, and the latitude parsed
  is Infinity, not the number 10 to the 400 minus 1 that the string holds.
\<close>

theorem parseLocation_coordinates_counterexample:
  "regex_test coordPattern (replicate 400 CHR ''9'' @ '',0.25'')
   \<and> replicate 400 CHR ''9'' @ '',0.25''
       = numeral_text False (replicate 400 CHR ''9'') None @ [] @ CHR '','' # []
           @ numeral_text False ''0'' (Some ''25'')
   \<and> numeral_value False (replicate 400 CHR ''9'') None = 10 ^ 400 - 1
   \<and> parseLocation (sample_app ''KEY'') sample_env offline
        (Some (replicate 400 CHR ''9'' @ '',0.25''))
       = (Some \<lparr> lat = Some PosInfinity, lon = Some (Num 0.25) \<rparr>, [])
   \<and> PosInfinity \<noteq> Num (10 ^ 400 - 1)"
proof -
  let ?nines = "replicate 400 CHR ''9''"
  have shape: "?nines @ '',0.25''
       = numeral_text False ?nines None @ [] @ CHR '','' # [] @ numeral_text False ''0'' (Some ''25'')"
    by (simp add: numeral_text_def)
  have ok1: "numeral_ok ?nines None"
    by (simp add: numeral_ok_def list_all_iff isDigit_def)
  have ok2: "numeral_ok ''0'' (Some ''25'')"
    by (simp add: numeral_ok_def isDigit_def)
  have m: "regex_test coordPattern (?nines @ '',0.25'')"
    unfolding shape using ok1 _ _ ok2 by (rule coordPattern_accepts) simp_all
  have v2: "numeral_value False ''0'' (Some ''25'') = 0.25"
    by (simp add: numeral_value_def decimal_def digitVal_def)
  have "parseLocation (sample_app ''KEY'') sample_env offline (Some (?nines @ '',0.25''))
        = (Some \<lparr> lat = Some (binary64 (numeral_value False ?nines None)),
                  lon = Some (binary64 (numeral_value False ''0'' (Some ''25''))) \<rparr>, [])"
    unfolding shape using ok1 _ _ ok2 by (rule parseLocation_shape) simp_all
  then have p: "parseLocation (sample_app ''KEY'') sample_env offline (Some (?nines @ '',0.25''))
       = (Some \<lparr> lat = Some PosInfinity, lon = Some (Num 0.25) \<rparr>, [])"
    by (simp only: nines_value nines_overflow v2 binary64_greenwich_lon)
  have ne: "PosInfinity \<noteq> Num (10 ^ 400 - 1)"
    by simp
  show ?thesis
    by (intro conjI) (fact m shape nines_value p ne)+
qed

end
